theory Spec2Isabelle
  imports
    Complex_Main
    "HOL-Library.Multiset"
    "HOL-Library.Char_ord"
    "HOL-Library.List_Lexorder"
begin

section \<open>Strings\<close>

text \<open>
  JavaScript strings are modelled as \<^typ>\<open>string\<close>, one \<^typ>\<open>char\<close> per code unit, so a
  string of the model is a string whose code units are below 256 (ASCII and Latin-1). On
  these, \<open>toLowerCase\<close>, \<open>trim\<close>, the regular-expression class \<open>\s\<close>, the comparison of
  \<open>sort\<close> and \<open>JSON.stringify\<close> are modelled as JavaScript computes them.
  Numbers are IEEE doubles in the source and \<^typ>\<open>real\<close> here, so rounding is not modelled.
\<close>

text \<open>\<open>toLowerCase\<close> on a code unit below 256: the letters A to Z, and the Latin-1 capital
  letters U+00C0 to U+00DE without the multiplication sign U+00D7, move up by 32.\<close>

definition toLowerChar :: "char \<Rightarrow> char" where
  "toLowerChar c =
     (if (CHR ''A'' \<le> c \<and> c \<le> CHR ''Z'')
         \<or> (CHR 0xC0 \<le> c \<and> c \<le> CHR 0xDE \<and> c \<noteq> CHR 0xD7)
      then char_of (of_char c + (32::nat)) else c)"

definition toLowerCase :: "string \<Rightarrow> string" where
  "toLowerCase s = map toLowerChar s"

text \<open>White space of \<open>String.prototype.trim\<close> and of \<open>\s\<close> below 256: tab, line feed,
  vertical tab, form feed, carriage return, space and the no-break space U+00A0.\<close>

definition isSpace :: "char \<Rightarrow> bool" where
  "isSpace c = (c = CHR 0x09 \<or> c = CHR 0x0A \<or> c = CHR 0x0B \<or> c = CHR 0x0C \<or> c = CHR 0x0D
                 \<or> c = CHR '' '' \<or> c = CHR 0xA0)"

definition trim :: "string \<Rightarrow> string" where
  "trim s = rev (dropWhile isSpace (rev (dropWhile isSpace s)))"

fun startsWith :: "string \<Rightarrow> string \<Rightarrow> bool" where
  "startsWith s [] = True"
| "startsWith [] (c # cs) = False"
| "startsWith (d # ds) (c # cs) = (d = c \<and> startsWith ds cs)"

text \<open>\<open>hay.includes(needle)\<close>: the needle occurs as a contiguous run of the haystack.\<close>

fun includesStr :: "string \<Rightarrow> string \<Rightarrow> bool" where
  "includesStr [] needle = (needle = [])"
| "includesStr (c # cs) needle = (startsWith (c # cs) needle \<or> includesStr cs needle)"

text \<open>\<open>Array.prototype.join\<close> with a separator.\<close>

fun join :: "string \<Rightarrow> string list \<Rightarrow> string" where
  "join sep [] = []"
| "join sep [x] = x"
| "join sep (x # y # ys) = x @ sep @ join sep (y # ys)"

text \<open>\<open>s.split(/\s+/)\<close>: the pieces between maximal runs of white space; a run at either
  end of the string leaves an empty piece there, and the empty string gives one empty piece.\<close>

function splitSpaces :: "string \<Rightarrow> string list" where
  "splitSpaces s =
     (let w = takeWhile (\<lambda>c. \<not> isSpace c) s;
          r = dropWhile (\<lambda>c. \<not> isSpace c) s
      in if r = [] then [w] else w # splitSpaces (dropWhile isSpace r))"
  by pat_completeness auto
termination
proof (relation "measure length")
  show "wf (measure length)" by simp
next
  fix s w r :: string
  assume r: "r = dropWhile (\<lambda>c. \<not> isSpace c) s" and ne: "r \<noteq> []"
  from ne [unfolded r]
  have "length (dropWhile isSpace (dropWhile (\<lambda>c. \<not> isSpace c) s)) < length s"
  proof (induction s)
    case Nil
    then show ?case by simp
  next
    case (Cons a s)
    show ?case
    proof (cases "isSpace a")
      case True
      have "length (dropWhile isSpace s) \<le> length s" by (rule length_dropWhile_le)
      with True show ?thesis by simp
    next
      case False
      with Cons show ?thesis by (simp add: less_SucI)
    qed
  qed
  with r show "(dropWhile isSpace r, s) \<in> measure length" by simp
qed

declare splitSpaces.simps [simp del]

text \<open>\<open>s.replace(/\s+/g, rep)\<close>: every maximal run of white space becomes \<open>rep\<close>.\<close>

fun replaceSpaces :: "string \<Rightarrow> string \<Rightarrow> string" where
  "replaceSpaces rep [] = []"
| "replaceSpaces rep [c] = (if isSpace c then rep else [c])"
| "replaceSpaces rep (c # d # ds) =
     (if isSpace c then (if isSpace d then replaceSpaces rep (d # ds)
                         else rep @ replaceSpaces rep (d # ds))
      else c # replaceSpaces rep (d # ds))"

section \<open>JSON text of a cache key\<close>

text \<open>\<open>JSON.stringify\<close> on a string: the quotation mark, the backslash and the control
  characters are escaped (the short escapes where JSON has one, \<open>\u00XX\<close> in lower-case
  hexadecimal otherwise); every other character stands for itself.\<close>

definition hexDigit :: "nat \<Rightarrow> char" where
  "hexDigit n = ''0123456789abcdef'' ! n"

definition quoteJSONChar :: "char \<Rightarrow> string" where
  "quoteJSONChar c =
     (if c = CHR 0x08 then [CHR 0x5C, CHR ''b'']
      else if c = CHR 0x09 then [CHR 0x5C, CHR ''t'']
      else if c = CHR 0x0A then [CHR 0x5C, CHR ''n'']
      else if c = CHR 0x0C then [CHR 0x5C, CHR ''f'']
      else if c = CHR 0x0D then [CHR 0x5C, CHR ''r'']
      else if c = CHR 0x22 then [CHR 0x5C, CHR 0x22]
      else if c = CHR 0x5C then [CHR 0x5C, CHR 0x5C]
      else if of_char c < (32::nat)
        then [CHR 0x5C, CHR ''u'', CHR ''0'', CHR ''0'',
              hexDigit (of_char c div 16), hexDigit (of_char c mod 16)]
      else [c])"

definition quoteJSONString :: "string \<Rightarrow> string" where
  "quoteJSONString s = CHR 0x22 # concat (map quoteJSONChar s) @ [CHR 0x22]"

section \<open>Data model\<close>

datatype PoliticalCategory =
    EDUCATION | ECONOMY | HEALTHCARE | ENVIRONMENT | INFRASTRUCTURE
  | PUBLIC_SAFETY | SOCIAL_SERVICES | HOUSING | IMMIGRATION | FOREIGN_POLICY
  | CIVIL_RIGHTS | TAXATION | TECHNOLOGY | AGRICULTURE | ENERGY | DEFENSE
  | LABOR | TRANSPORTATION | CRIMINAL_JUSTICE | ELECTORAL_REFORM

text \<open>The optional members of the source's interfaces are \<^typ>\<open>'a option\<close> fields.\<close>

record PolicyApproach =
  approachName :: string
  conflictingApproaches :: "string list option"

record PoliticalIssue =
  issueId :: string
  issueName :: string
  issueDescription :: "string option"
  category :: PoliticalCategory
  synonyms :: "string list"
  relatedTerms :: "string list"
  weight :: real
  policyApproaches :: "PolicyApproach list option"
  opposingIssues :: "string list option"

datatype severity = Low | Medium | High

datatype conflict_type = Resource | Implementation | Policy

record ConflictDefinition =
  conflictIssues :: "string \<times> string"
  conflictReason :: string
  conflictSeverity :: severity
  conflictType :: conflict_type
  possibleCompromises :: "string list"

record IssueMatch =
  issue :: PoliticalIssue
  confidence :: real
  matchedTerms :: "string list"

record MappedPriority =
  userPriority :: string
  mappedIssues :: "IssueMatch list"

datatype flag_type = Extreme | OutOfScope

record FlaggedPriority =
  flaggedUserPriority :: string
  flagType :: flag_type
  flagReason :: string

record PriorityAnalysis =
  mappedPriorities :: "MappedPriority list"
  dominantCategories :: "PoliticalCategory list"
  potentialConflicts :: "ConflictDefinition list"
  flaggedPriorities :: "FlaggedPriority list"

datatype stance = Support | Oppose | Neutral

record CandidatePosition =
  positionIssue :: string
  positionStance :: stance
  strength :: real

record Candidate =
  candidateId :: string
  candidateName :: string
  party :: string
  office :: string
  positions :: "CandidatePosition list"

record CandidateMatch =
  candidate :: Candidate
  alignmentScore :: real
  matchedPriorities :: "string list"
  rationale :: string

record BallotMeasure =
  measureId :: string
  title :: string
  description :: string
  applicableLocations :: "string list"
  supporters :: "string list"
  opposers :: "string list"
  categories :: "string list"

record MeasureImpactAnalysis =
  positiveImpacts :: "string list"
  negativeImpacts :: "string list"
  uncertainImpacts :: "string list"

record BallotMeasureMatch =
  ballotMeasure :: BallotMeasure
  relevanceScore :: real
  relevantPriorities :: "string list"
  explanation :: string
  pros :: "string list"
  cons :: "string list"
  impactAnalysis :: MeasureImpactAnalysis
  isFallback :: bool

datatype mode = Current | Demo

record RecommendationRequest =
  priorities :: "string list"
  zipCode :: string
  mode :: mode

text \<open>The three alignment marks of a candidate entry: a check mark, a warning sign and a
  cross mark in the source.\<close>

datatype alignment_mark = CheckMark | WarningSign | CrossMark

record CandidateEntry =
  entryName :: string
  entryOffice :: string
  entryParty :: string
  positionSummary :: string
  platformHighlights :: "string list"
  entryRationale :: string
  officialWebsite :: string
  entryAlignmentScore :: real
  alignment :: alignment_mark

record MeasureEntry =
  entryTitle :: string
  entryDescription :: string
  entrySupporters :: "string list"
  entryOpposers :: "string list"
  entryExplanation :: string
  entryRelevanceScore :: real
  ballotpediaLink :: string

record PolicyRecommendations =
  topPolicies :: "string list"
  policyExplanation :: string

record RecommendationsResult =
  candidates :: "CandidateEntry list"
  ballotMeasures :: "MeasureEntry list"
  policyRecommendations :: PolicyRecommendations
  error :: "string option"

text \<open>A thrown JavaScript value is either an \<open>Error\<close> object with its message or some other
  value, of which only its truthiness is observed.\<close>

datatype thrown = ErrorObject string | OtherValue bool

fun truthy :: "thrown \<Rightarrow> bool" where
  "truthy (ErrorObject m) = True"
| "truthy (OtherValue b) = b"

text \<open>\<open>error instanceof Error ? error.message : 'Unknown error'\<close>\<close>

fun errorMessage :: "thrown \<Rightarrow> string" where
  "errorMessage (ErrorObject m) = m"
| "errorMessage (OtherValue b) = ''Unknown error''"

text \<open>A JavaScript \<open>Set\<close> of strings keeps its members in insertion order; \<open>add\<close> of a
  member already there changes nothing.\<close>

definition setAdd :: "'a \<Rightarrow> 'a list \<Rightarrow> 'a list" where
  "setAdd x s = (if x \<in> set s then s else s @ [x])"

text \<open>\<open>xs.map(f)\<close> with a callback that may throw: the first exception ends the traversal.\<close>

fun mapThrowing :: "('a \<Rightarrow> thrown + 'b) \<Rightarrow> 'a list \<Rightarrow> thrown + 'b list" where
  "mapThrowing f [] = Inr []"
| "mapThrowing f (x # xs) =
     (case f x of
        Inl err \<Rightarrow> Inl err
      | Inr y \<Rightarrow> (case mapThrowing f xs of Inl err \<Rightarrow> Inl err | Inr ys \<Rightarrow> Inr (y # ys)))"

section \<open>Priority mapper (priority-mapping-service.ts, mock-data.ts)\<close>

subsection \<open>The mock taxonomy\<close>

definition MOCK_POLITICAL_ISSUES :: "PoliticalIssue list" where
  "MOCK_POLITICAL_ISSUES =
     [ \<lparr> issueId = ''taxes'', issueName = ''Taxation'', issueDescription = None,
         category = ECONOMY,
         synonyms = [''tax'', ''taxes'', ''tax reform'', ''tax relief'', ''tax reduction''],
         relatedTerms = [''income tax'', ''property tax'', ''tax burden'', ''tax cuts'',
                         ''lower taxes''],
         weight = 1.0, policyApproaches = None, opposingIssues = None \<rparr>,
       \<lparr> issueId = ''small_business'', issueName = ''Small Business Support'',
         issueDescription = None, category = ECONOMY,
         synonyms = [''small business'', ''business support'', ''entrepreneurship''],
         relatedTerms = [''local business'', ''business owners'', ''small business loans'',
                         ''business regulation''],
         weight = 0.9, policyApproaches = None, opposingIssues = None \<rparr>,
       \<lparr> issueId = ''public_education'', issueName = ''Public Education'',
         issueDescription = None, category = EDUCATION,
         synonyms = [''schools'', ''education'', ''public schools'', ''school funding''],
         relatedTerms = [''teachers'', ''students'', ''classrooms'', ''school quality'',
                         ''better schools'', ''education funding''],
         weight = 1.0, policyApproaches = None, opposingIssues = None \<rparr>,
       \<lparr> issueId = ''education_equity'', issueName = ''Education Equity'',
         issueDescription = None, category = EDUCATION,
         synonyms = [''fair education'', ''equal education'', ''access to education'',
                     ''educational equality''],
         relatedTerms = [''achievement gap'', ''school funding equity'',
                         ''education opportunity'', ''fair access to schools'',
                         ''equitable school resources''],
         weight = 0.9, policyApproaches = None, opposingIssues = None \<rparr>,
       \<lparr> issueId = ''healthcare_access'', issueName = ''Healthcare Access'',
         issueDescription = None, category = HEALTHCARE,
         synonyms = [''healthcare'', ''medical care'', ''health insurance'',
                     ''affordable healthcare'', ''public health''],
         relatedTerms = [''doctor'', ''hospital'', ''medical costs'', ''health coverage'',
                         ''healthcare reform'', ''health measures'', ''public health services''],
         weight = 1.0, policyApproaches = None, opposingIssues = None \<rparr>,
       \<lparr> issueId = ''climate_change'', issueName = ''Climate Change'',
         issueDescription = None, category = ENVIRONMENT,
         synonyms = [''global warming'', ''climate action'', ''climate crisis'',
                     ''environmental protection'', ''water quality'', ''pollution control''],
         relatedTerms = [''carbon emissions'', ''climate policy'', ''clean energy'',
                         ''green spaces'', ''park access'', ''urban greening'',
                         ''water protection'', ''clean water'', ''industrial pollution'',
                         ''emissions control''],
         weight = 1.0, policyApproaches = None, opposingIssues = None \<rparr>,
       \<lparr> issueId = ''road_maintenance'', issueName = ''Road Maintenance'',
         issueDescription = None, category = INFRASTRUCTURE,
         synonyms = [''roads'', ''highways'', ''street repair''],
         relatedTerms = [''potholes'', ''road construction'', ''fix roads'', ''road quality'',
                         ''neighborhood roads''],
         weight = 0.8, policyApproaches = None, opposingIssues = None \<rparr>,
       \<lparr> issueId = ''social_equity'', issueName = ''Social Equity'',
         issueDescription = None, category = SOCIAL_SERVICES,
         synonyms = [''equity'', ''equality'', ''social justice'', ''fairness'',
                     ''economic justice''],
         relatedTerms = [''equal opportunity'', ''fair treatment'', ''diversity'', ''inclusion'',
                         ''justice'', ''fair hiring'', ''living wage'', ''worker protections'',
                         ''equal pay'', ''environmental justice''],
         weight = 0.9, policyApproaches = None, opposingIssues = None \<rparr> ]"

definition MOCK_ISSUE_CONFLICTS :: "ConflictDefinition list" where
  "MOCK_ISSUE_CONFLICTS =
     [ \<lparr> conflictIssues = (''taxes'', ''public_education''),
         conflictReason = ''Lowering taxes may reduce funding available for public education'',
         conflictSeverity = High, conflictType = Resource,
         possibleCompromises = [''Targeted tax incentives for education'',
                                ''Efficiency improvements in education spending''] \<rparr>,
       \<lparr> conflictIssues = (''road_maintenance'', ''taxes''),
         conflictReason =
           ''Infrastructure improvements require funding that may conflict with tax reduction goals'',
         conflictSeverity = Medium, conflictType = Resource,
         possibleCompromises = [''Public-private partnerships for infrastructure'',
                                ''Targeted infrastructure bonds''] \<rparr> ]"

subsection \<open>\<open>findIssuesByKeywords\<close> and \<open>detectConflicts\<close> (mock-data.ts)\<close>

text \<open>The test of the standard keyword matching: the normalised keyword contains a synonym
  or a related term of the issue, or is contained in one.\<close>

definition keywordMatchesIssue :: "string \<Rightarrow> PoliticalIssue \<Rightarrow> bool" where
  "keywordMatchesIssue normalizedKeyword issue' =
     (let matchesSynonym =
            list_ex (\<lambda>syn. includesStr normalizedKeyword (toLowerCase syn)
                          \<or> includesStr (toLowerCase syn) normalizedKeyword) (synonyms issue');
          matchesRelatedTerm =
            list_ex (\<lambda>term. includesStr normalizedKeyword (toLowerCase term)
                           \<or> includesStr (toLowerCase term) normalizedKeyword)
              (relatedTerms issue')
      in matchesSynonym \<or> matchesRelatedTerm)"

text \<open>The two nested \<open>forEach\<close> loops that fill \<open>results\<close>. The objects of the taxonomy are
  pairwise different values, so \<open>results.includes(issue)\<close> is membership.\<close>

definition standardMatches :: "string list \<Rightarrow> PoliticalIssue list" where
  "standardMatches keywords =
     foldl (\<lambda>results keyword.
              let normalizedKeyword = trim (toLowerCase keyword) in
              foldl (\<lambda>results issue'.
                       if keywordMatchesIssue normalizedKeyword issue' \<and> issue' \<notin> set results
                       then results @ [issue'] else results)
                results MOCK_POLITICAL_ISSUES)
       [] keywords"

text \<open>The fallback loop: the first word of at least three characters that occurs in the
  name, a synonym or a related term of some issue chooses the first such issue.\<close>

fun fallbackIssue :: "string list \<Rightarrow> PoliticalIssue option" where
  "fallbackIssue [] = None"
| "fallbackIssue (word # words) =
     (if length word < 3 then fallbackIssue words
      else case find (\<lambda>issue'. includesStr (toLowerCase (issueName issue')) word
                         \<or> list_ex (\<lambda>s. includesStr (toLowerCase s) word) (synonyms issue')
                         \<or> list_ex (\<lambda>t. includesStr (toLowerCase t) word) (relatedTerms issue'))
                  MOCK_POLITICAL_ISSUES of
             Some issue' \<Rightarrow> Some issue'
           | None \<Rightarrow> fallbackIssue words)"

text \<open>The special cases at the head of \<open>findIssuesByKeywords\<close>, on the joined keywords in
  lower case: the issues that the first matching case returns, or \<open>None\<close> when no case
  matches and the function goes on to the standard keyword matching.\<close>

definition specialCaseIssues :: "string \<Rightarrow> PoliticalIssue list option" where
  "specialCaseIssues joinedKeywords =
     (if includesStr joinedKeywords ''education'' \<and> includesStr joinedKeywords ''equity''
        then Some (filter (\<lambda>i. category i = EDUCATION \<or> category i = SOCIAL_SERVICES)
                     MOCK_POLITICAL_ISSUES)
      else if includesStr joinedKeywords ''economic'' \<and> includesStr joinedKeywords ''justice''
        then Some (filter (\<lambda>i. category i = ECONOMY \<or> category i = SOCIAL_SERVICES)
                     MOCK_POLITICAL_ISSUES)
      else if includesStr joinedKeywords ''environmental justice''
        then Some (filter (\<lambda>i. category i = ENVIRONMENT \<or> category i = SOCIAL_SERVICES)
                     MOCK_POLITICAL_ISSUES)
      else if includesStr joinedKeywords ''environment'' \<or> includesStr joinedKeywords ''climate''
        then Some (filter (\<lambda>i. category i = ENVIRONMENT \<or> category i = HEALTHCARE)
                     MOCK_POLITICAL_ISSUES)
      else if includesStr joinedKeywords ''healthcare'' \<or> includesStr joinedKeywords ''medical''
        then Some (filter (\<lambda>i. category i = HEALTHCARE) MOCK_POLITICAL_ISSUES)
      else if (includesStr joinedKeywords ''tax'' \<and> includesStr joinedKeywords ''education'')
              \<or> (includesStr joinedKeywords ''lower taxes''
                  \<and> includesStr joinedKeywords ''funding'')
        then Some (filter (\<lambda>i. issueId i = ''taxes'' \<or> issueId i = ''public_education'')
                     MOCK_POLITICAL_ISSUES)
      else None)"

definition findIssuesByKeywords :: "string list \<Rightarrow> PoliticalIssue list" where
  "findIssuesByKeywords keywords =
     (let joinedKeywords = toLowerCase (join '' '' keywords) in
      case specialCaseIssues joinedKeywords of
        Some issues \<Rightarrow> issues
      | None \<Rightarrow>
          (let results = standardMatches keywords in
           if length results = 0
           then (case fallbackIssue (splitSpaces (toLowerCase (join '' '' keywords))) of
                   Some issue' \<Rightarrow> [issue']
                 | None \<Rightarrow> [hd MOCK_POLITICAL_ISSUES])
           else results))"

definition detectConflicts :: "PoliticalIssue list \<Rightarrow> ConflictDefinition list" where
  "detectConflicts issues =
     (let issueIds = map issueId issues in
      filter (\<lambda>conflict. fst (conflictIssues conflict) \<in> set issueIds
                         \<and> snd (conflictIssues conflict) \<in> set issueIds)
        MOCK_ISSUE_CONFLICTS)"

subsection \<open>Flagged phrasing\<close>

text \<open>Each of the four regular expressions of \<open>EXTREME_PRIORITY_PATTERNS\<close> is a word, \<open>\s+\<close>,
  and a group of alternative words, matched anywhere in the text without regard to case:
  a pattern is kept as its word and its alternatives, in lower case.\<close>

record ExtremePattern =
  patternWord :: string
  patternAlternatives :: "string list"
  patternFlagType :: flag_type
  patternReason :: string

definition EXTREME_PRIORITY_PATTERNS :: "ExtremePattern list" where
  "EXTREME_PRIORITY_PATTERNS =
     [ \<lparr> patternWord = ''imprison'', patternAlternatives = [''judges'', ''officials''],
         patternFlagType = Extreme,
         patternReason = ''Advocates for potentially extra-judicial actions.'' \<rparr>,
       \<lparr> patternWord = ''trade'', patternAlternatives = [''war''],
         patternFlagType = Extreme,
         patternReason = ''Suggests a drastic and potentially harmful economic policy.'' \<rparr>,
       \<lparr> patternWord = ''gold'', patternAlternatives = [''standard''],
         patternFlagType = OutOfScope,
         patternReason = ''Represents a niche economic theory not typically covered.'' \<rparr>,
       \<lparr> patternWord = ''abolish'', patternAlternatives = [''taxes'', ''government''],
         patternFlagType = Extreme,
         patternReason = ''Suggests a fundamental dismantling of core government functions.'' \<rparr> ]"

text \<open>\<open>\s+(a|b)\<close> at the beginning of a text: one white-space character, and then an
  alternative or the same again.\<close>

fun spacesThen :: "string list \<Rightarrow> string \<Rightarrow> bool" where
  "spacesThen alternatives [] = False"
| "spacesThen alternatives (c # cs) =
     (isSpace c \<and> (list_ex (startsWith cs) alternatives \<or> spacesThen alternatives cs))"

text \<open>The pattern at some position of a lower-cased text.\<close>

fun searchPattern :: "string \<Rightarrow> string list \<Rightarrow> string \<Rightarrow> bool" where
  "searchPattern word alternatives [] = False"
| "searchPattern word alternatives (c # cs) =
     ((startsWith (c # cs) word \<and> spacesThen alternatives (drop (length word) (c # cs)))
      \<or> searchPattern word alternatives cs)"

text \<open>\<open>extremePattern.pattern.test(priority)\<close>\<close>

definition patternTest :: "ExtremePattern \<Rightarrow> string \<Rightarrow> bool" where
  "patternTest extremePattern priority =
     searchPattern (patternWord extremePattern) (patternAlternatives extremePattern)
       (toLowerCase priority)"

text \<open>The inner \<open>for\<close> loop with its \<open>break\<close>: the first pattern that matches.\<close>

fun firstExtremePattern :: "ExtremePattern list \<Rightarrow> string \<Rightarrow> ExtremePattern option" where
  "firstExtremePattern [] priority = None"
| "firstExtremePattern (extremePattern # rest) priority =
     (if patternTest extremePattern priority then Some extremePattern
      else firstExtremePattern rest priority)"

text \<open>The outer \<open>for\<close> loop of \<open>analyzePriorities\<close>, on \<open>flaggedPriorities\<close> and
  \<open>validPrioritiesToMap\<close>.\<close>

definition classifyPriority ::
  "FlaggedPriority list \<times> string list \<Rightarrow> string \<Rightarrow> FlaggedPriority list \<times> string list" where
  "classifyPriority acc priority =
     (case acc of (flagged, valid) \<Rightarrow>
        if length (trim priority) = 0 then (flagged, valid)
        else (case firstExtremePattern EXTREME_PRIORITY_PATTERNS priority of
                Some extremePattern \<Rightarrow>
                  (flagged @ [\<lparr> flaggedUserPriority = priority,
                                flagType = patternFlagType extremePattern,
                                flagReason = patternReason extremePattern \<rparr>], valid)
              | None \<Rightarrow> (flagged, valid @ [priority])))"

subsection \<open>\<open>analyzePriorities\<close>\<close>

definition climateIssueLiteral :: PoliticalIssue where
  "climateIssueLiteral =
     \<lparr> issueId = ''climate-change'', issueName = ''Climate Change'',
       issueDescription =
         Some ''Policies related to addressing climate change and environmental protection'',
       category = ENVIRONMENT,
       synonyms = [''climate'', ''environment'', ''green'', ''sustainability''],
       relatedTerms = [''global warming'', ''carbon emissions'', ''renewable energy''],
       weight = 1.0, policyApproaches = None, opposingIssues = None \<rparr>"

text \<open>The callback of \<open>validPrioritiesToMap.map\<close>.\<close>

definition mapValidPriority :: "string \<Rightarrow> MappedPriority" where
  "mapValidPriority priority =
     (let isClimate = includesStr (toLowerCase priority) ''climate'' in
      case (if isClimate
            then find (\<lambda>i. issueId i = ''climate_change'') MOCK_POLITICAL_ISSUES else None) of
        Some climateIssueFromMockData \<Rightarrow>
          \<lparr> userPriority = priority,
            mappedIssues = [\<lparr> issue = climateIssueFromMockData, confidence = 0.9,
                              matchedTerms = [''climate change'', ''climate''] \<rparr>] \<rparr>
      | None \<Rightarrow>
          (let found = findIssuesByKeywords [priority];
               matchingIssues =
                 (if isClimate \<and> \<not> list_ex (\<lambda>i. issueId i = ''climate-change'') found
                  then found @ [climateIssueLiteral] else found)
           in if length matchingIssues = 0
              then (let words = splitSpaces (toLowerCase priority);
                        fallbackIssues =
                          filter (\<lambda>issue'.
                                    list_ex (\<lambda>word.
                                      includesStr (toLowerCase (issueName issue')) word
                                      \<or> list_ex (\<lambda>syn. includesStr (toLowerCase syn) word)
                                           (synonyms issue')) words)
                            MOCK_POLITICAL_ISSUES;
                        issueToUse = (if length fallbackIssues > 0 then hd fallbackIssues
                                      else hd MOCK_POLITICAL_ISSUES)
                    in \<lparr> userPriority = priority,
                         mappedIssues = [\<lparr> issue = issueToUse, confidence = 0.5,
                                           matchedTerms = [priority] \<rparr>] \<rparr>)
              else \<lparr> userPriority = priority,
                     mappedIssues =
                       map (\<lambda>issue'. \<lparr> issue = issue', confidence = 0.8,
                                       matchedTerms = [priority] \<rparr>) matchingIssues \<rparr>))"

text \<open>The keys of \<open>categoryCounts\<close> in the order of the object literal.\<close>

definition categoryOrder :: "PoliticalCategory list" where
  "categoryOrder =
     [EDUCATION, ECONOMY, HEALTHCARE, ENVIRONMENT, INFRASTRUCTURE, PUBLIC_SAFETY,
      SOCIAL_SERVICES, HOUSING, IMMIGRATION, FOREIGN_POLICY, CIVIL_RIGHTS, TAXATION,
      TECHNOLOGY, AGRICULTURE, ENERGY, DEFENSE, LABOR, TRANSPORTATION, CRIMINAL_JUSTICE,
      ELECTORAL_REFORM]"

definition addCount :: "PoliticalCategory \<Rightarrow> (PoliticalCategory \<Rightarrow> nat) \<Rightarrow> PoliticalCategory \<Rightarrow> nat" where
  "addCount c counts = counts(c := counts c + 1)"

text \<open>The callback of \<open>mappedPriorities.forEach\<close> on \<open>categoryCounts\<close>.\<close>

definition countCategories ::
  "(PoliticalCategory \<Rightarrow> nat) \<Rightarrow> MappedPriority \<Rightarrow> PoliticalCategory \<Rightarrow> nat" where
  "countCategories categoryCounts mappedPriority =
     (let issueCategories = map (\<lambda>mi. category (issue mi)) (mappedIssues mappedPriority);
          counts1 = foldl (\<lambda>counts c. addCount c counts) categoryCounts issueCategories;
          lower = toLowerCase (userPriority mappedPriority);
          counts2 = (if includesStr lower ''economic justice'' \<or> includesStr lower ''advocate''
                     then addCount ECONOMY (addCount SOCIAL_SERVICES counts1) else counts1);
          counts3 = (if includesStr lower ''environmental health''
                     then addCount HEALTHCARE (addCount ENVIRONMENT
                            (addCount SOCIAL_SERVICES counts2))
                     else counts2)
      in counts3)"

definition analyzePriorities :: "string list \<Rightarrow> PriorityAnalysis" where
  "analyzePriorities priorities' =
     (let (flagged, validPrioritiesToMap) = foldl classifyPriority ([], []) priorities';
          mapped = map mapValidPriority validPrioritiesToMap;
          categoryCounts = foldl countCategories (\<lambda>c. 0) mapped;
          dominant =
            map fst (take 3 (sort_key (\<lambda>(c, n). - int n)
                               (filter (\<lambda>(c, n). n > 0)
                                  (map (\<lambda>c. (c, categoryCounts c)) categoryOrder))));
          allIssues = concat (map (\<lambda>mp. map issue (mappedIssues mp)) mapped)
      in \<lparr> mappedPriorities = mapped,
           dominantCategories = dominant,
           potentialConflicts = detectConflicts allIssues,
           flaggedPriorities = flagged \<rparr>)"

subsection \<open>Private methods that \<open>analyzePriorities\<close> does not call\<close>

text \<open>\<open>calculateTermMatch\<close>, \<open>mapSinglePriority\<close> and \<open>findPolicyConflicts\<close> read the taxonomy
  \<open>POLITICAL_ISSUES\<close> and the table \<open>ISSUE_CONFLICTS\<close> of a data file; both are parameters
  here. For the empty priority JavaScript divides by zero in \<open>calculateTermMatch\<close>; the
  quotient below is meant for a priority that is not empty.\<close>

definition normalizeText :: "string \<Rightarrow> string" where
  "normalizeText text' = trim (toLowerCase text')"

definition calculateTermMatch :: "string \<Rightarrow> string list \<Rightarrow> real" where
  "calculateTermMatch priority terms =
     (let normalizedPriority = normalizeText priority in
      foldl (\<lambda>maxScore term.
               let normalizedTerm = normalizeText term in
               if includesStr normalizedPriority normalizedTerm
               then max maxScore
                      (real (length term) / real (length priority)
                       * (if startsWith normalizedPriority normalizedTerm then 1.2 else 1.0))
               else maxScore)
        0 terms)"

definition mapSinglePriority :: "PoliticalIssue list \<Rightarrow> string \<Rightarrow> MappedPriority" where
  "mapSinglePriority POLITICAL_ISSUES priority =
     (let matches =
            map (\<lambda>issue'.
                   let synonymMatch =
                         (if list_ex (\<lambda>syn. normalizeText priority = normalizeText syn)
                               (synonyms issue') then 1 else 0);
                       termMatch = calculateTermMatch priority
                                     (synonyms issue' @ relatedTerms issue');
                       confidence' = max synonymMatch (termMatch * weight issue')
                   in \<lparr> issue = issue', confidence = confidence',
                        matchedTerms =
                          filter (\<lambda>term. includesStr (normalizeText priority)
                                            (normalizeText term))
                            (synonyms issue' @ relatedTerms issue') \<rparr>)
              POLITICAL_ISSUES
      in \<lparr> userPriority = priority,
           mappedIssues = sort_key (\<lambda>m. - confidence m)
                            (filter (\<lambda>m. confidence m > 0) matches) \<rparr>)"

text \<open>The three loops of \<open>findPolicyConflicts\<close>. The second loop skips a pair when
  \<open>issue1 === issue2\<close>, which compares the two objects and not their contents: an element
  of \<open>mappedIssues\<close> is therefore an issue together with the address of its object, and the
  second loop compares addresses. The first and the third loop read the issues only.\<close>

definition directConflicts :: "ConflictDefinition list \<Rightarrow> PoliticalIssue list \<Rightarrow> ConflictDefinition list" where
  "directConflicts ISSUE_CONFLICTS mappedIssues' =
     filter (\<lambda>conflict.
               list_ex (\<lambda>i. issueId i = fst (conflictIssues conflict)) mappedIssues'
               \<and> list_ex (\<lambda>i. issueId i = snd (conflictIssues conflict)) mappedIssues')
       ISSUE_CONFLICTS"

definition declaresConflict :: "PolicyApproach \<Rightarrow> PolicyApproach \<Rightarrow> bool" where
  "declaresConflict approach1 approach2 =
     (case conflictingApproaches approach1 of
        None \<Rightarrow> False
      | Some names \<Rightarrow> approachName approach2 \<in> set names)"

definition approachConflicts :: "(nat \<times> PoliticalIssue) list \<Rightarrow> ConflictDefinition list" where
  "approachConflicts mappedIssues' =
     concat (map (\<lambda>(address1, issue1).
       case policyApproaches issue1 of
         None \<Rightarrow> []
       | Some approaches1 \<Rightarrow>
           concat (map (\<lambda>(address2, issue2).
             if address1 = address2 then []
             else case policyApproaches issue2 of
               None \<Rightarrow> []
             | Some approaches2 \<Rightarrow>
                 concat (map (\<lambda>approach1.
                   concat (map (\<lambda>approach2.
                     if declaresConflict approach1 approach2
                        \<or> declaresConflict approach2 approach1
                     then [\<lparr> conflictIssues = (issueId issue1, issueId issue2),
                             conflictReason =
                               ''Conflicting approaches: '' @ approachName approach1 @
                               '' vs '' @ approachName approach2,
                             conflictSeverity = Medium, conflictType = Implementation,
                             possibleCompromises =
                               [''Consider balanced approach between '' @
                                  approachName approach1 @ '' and '' @ approachName approach2,
                                ''Seek expert mediation for implementation strategy''] \<rparr>]
                     else []) approaches2)) approaches1)) mappedIssues')) mappedIssues')"

definition opposingConflicts :: "PoliticalIssue list \<Rightarrow> ConflictDefinition list" where
  "opposingConflicts mappedIssues' =
     concat (map (\<lambda>issue'.
       case opposingIssues issue' of
         None \<Rightarrow> []
       | Some opposingIds \<Rightarrow>
           concat (map (\<lambda>opposingId.
             case find (\<lambda>i. issueId i = opposingId) mappedIssues' of
               None \<Rightarrow> []
             | Some opposingIssue \<Rightarrow>
                 [\<lparr> conflictIssues = (issueId issue', opposingId),
                    conflictReason =
                      ''Direct policy opposition between '' @ issueName issue' @
                      '' and '' @ issueName opposingIssue,
                    conflictSeverity = High, conflictType = Policy,
                    possibleCompromises =
                      [''Seek balanced approach considering both perspectives'',
                       ''Consider phased implementation to address concerns''] \<rparr>])
             opposingIds)) mappedIssues')"

definition findPolicyConflicts ::
  "ConflictDefinition list \<Rightarrow> (nat \<times> PoliticalIssue) list \<Rightarrow> ConflictDefinition list" where
  "findPolicyConflicts ISSUE_CONFLICTS mappedIssues' =
     directConflicts ISSUE_CONFLICTS (map snd mappedIssues')
     @ approachConflicts mappedIssues'
     @ opposingConflicts (map snd mappedIssues')"



text \<open>The confidence as the specification words it: the largest signal over the terms of
  the issue, times the weight of the issue. The signal of a term is 1 when the term is a
  synonym equal to the priority up to case, the quotient of the lengths when the term is
  contained in the priority, and 0 otherwise, times 1.2 when the priority starts with the
  term.\<close>

definition specifiedSignal :: "string \<Rightarrow> PoliticalIssue \<Rightarrow> string \<Rightarrow> real" where
  "specifiedSignal priority issue' term =
     (if term \<in> set (synonyms issue') \<and> normalizeText priority = normalizeText term then 1
      else if includesStr (normalizeText priority) (normalizeText term)
        then real (length term) / real (length priority)
      else 0)
     * (if startsWith (normalizeText priority) (normalizeText term) then 1.2 else 1)"

definition specifiedConfidence :: "string \<Rightarrow> PoliticalIssue \<Rightarrow> real" where
  "specifiedConfidence priority issue' =
     foldl max 0 (map (specifiedSignal priority issue') (synonyms issue' @ relatedTerms issue'))
     * weight issue'"

text \<open>The first pattern of the list that matches a priority, as the specification words the
  result of the inner loop.\<close>

definition firstMatchingPattern :: "string \<Rightarrow> ExtremePattern option" where
  "firstMatchingPattern priority =
     find (\<lambda>extremePattern. patternTest extremePattern priority) EXTREME_PRIORITY_PATTERNS"

section \<open>Candidate matcher (candidate-matching-service.ts, test-helpers.ts)\<close>

definition createMockCandidates :: "Candidate list" where
  "createMockCandidates =
     [ \<lparr> candidateId = ''candidate-1'', candidateName = ''Jane Smith'', party = ''Democrat'',
         office = ''President'',
         positions =
           [ \<lparr> positionIssue = ''Healthcare Reform'', positionStance = Support, strength = 0.9 \<rparr>,
             \<lparr> positionIssue = ''Environmental Protection'', positionStance = Support,
               strength = 0.8 \<rparr>,
             \<lparr> positionIssue = ''Tax Reform'', positionStance = Neutral, strength = 0.5 \<rparr> ] \<rparr>,
       \<lparr> candidateId = ''candidate-2'', candidateName = ''John Doe'', party = ''Republican'',
         office = ''President'',
         positions =
           [ \<lparr> positionIssue = ''Tax Reform'', positionStance = Support, strength = 0.9 \<rparr>,
             \<lparr> positionIssue = ''Second Amendment'', positionStance = Support, strength = 0.9 \<rparr>,
             \<lparr> positionIssue = ''Healthcare Reform'', positionStance = Oppose, strength = 0.7 \<rparr> ] \<rparr>,
       \<lparr> candidateId = ''candidate-3'', candidateName = ''Sam Johnson'', party = ''Independent'',
         office = ''Senator'',
         positions =
           [ \<lparr> positionIssue = ''Environmental Protection'', positionStance = Support,
               strength = 0.9 \<rparr>,
             \<lparr> positionIssue = ''Education Funding'', positionStance = Support, strength = 0.8 \<rparr>,
             \<lparr> positionIssue = ''Tax Reform'', positionStance = Support, strength = 0.6 \<rparr> ] \<rparr> ]"

text \<open>The keyword test of the inner loop: the lower-cased priority contains the lower-cased
  issue label of the position, or the other way round.\<close>

definition positionMatches :: "CandidatePosition \<Rightarrow> string \<Rightarrow> bool" where
  "positionMatches position priority =
     (let positionIssue' = toLowerCase (positionIssue position);
          priorityLower = toLowerCase priority
      in includesStr priorityLower positionIssue' \<or> includesStr positionIssue' priorityLower)"

text \<open>The inner \<open>forEach\<close> over the user priorities for one position, on the running
  \<open>alignmentScore\<close> and \<open>matchedPrioritiesSet\<close>.\<close>

definition scorePosition ::
  "string list \<Rightarrow> real \<times> string list \<Rightarrow> CandidatePosition \<Rightarrow> real \<times> string list" where
  "scorePosition userPriorities acc position =
     foldl (\<lambda>(alignmentScore', matched) priority.
              if positionMatches position priority
              then (alignmentScore' + 0.2 * strength position, setAdd priority matched)
              else (alignmentScore', matched))
       acc userPriorities"

text \<open>The callback of \<open>candidates.map\<close>.\<close>

definition matchCandidate :: "string list \<Rightarrow> Candidate \<Rightarrow> CandidateMatch" where
  "matchCandidate userPriorities c =
     (let priorityKeywords = toLowerCase (join '' '' userPriorities);
          (summed, matchedPrioritiesSet) = foldl (scorePosition userPriorities) (0, []) (positions c);
          clamped = min 1 summed;
          special =
            (if includesStr priorityKeywords ''climate'' \<and> candidateName c = ''Sam Johnson''
               then 0.9
             else if includesStr priorityKeywords ''tax'' \<and> candidateName c = ''John Doe''
               then 0.85
             else if includesStr priorityKeywords ''healthcare'' \<and> candidateName c = ''Jane Smith''
               then 0.8
             else clamped);
          edge =
            (if includesStr priorityKeywords ''extremely specific'' \<or> length userPriorities = 0
               then 0.3
             else special)
      in \<lparr> candidate = c,
           alignmentScore = edge,
           matchedPriorities =
             (if length matchedPrioritiesSet > 0 then matchedPrioritiesSet
              else take 1 userPriorities),
           rationale =
             candidateName c @ '' aligns with your priorities'' @
             (if length matchedPrioritiesSet > 0
                then '' on '' @ join '' and '' matchedPrioritiesSet
              else if length userPriorities > 0 then '' on '' @ hd userPriorities
              else []) \<rparr>)"

text \<open>\<open>findMatchingCandidates\<close>; its options (mode and location) are not read. The sort is
  the stable \<open>Array.prototype.sort\<close> with the comparator \<open>b.alignmentScore - a.alignmentScore\<close>.\<close>

definition findMatchingCandidates ::
  "PriorityAnalysis \<Rightarrow> mode \<Rightarrow> string \<Rightarrow> CandidateMatch list" where
  "findMatchingCandidates priorityAnalysis m z =
     (let userPriorities = map userPriority (mappedPriorities priorityAnalysis);
          matches = map (matchCandidate userPriorities) createMockCandidates
      in sort_key (\<lambda>match. - alignmentScore match) matches)"

text \<open>The score the matching rule alone gives a candidate: 0.2 times the strength of the
  position for every pair of a position and a priority that match, summed and clamped
  to 1.\<close>

definition matchingRuleScore :: "string list \<Rightarrow> Candidate \<Rightarrow> real" where
  "matchingRuleScore userPriorities c =
     min 1 (sum_list (map (\<lambda>(position, priority). 0.2 * strength position)
                       (filter (\<lambda>(position, priority). positionMatches position priority)
                          (List.product (positions c) userPriorities))))"

text \<open>Two analyses with a single mapped priority each, as inputs of the matcher.\<close>

definition taxReformAnalysis :: PriorityAnalysis where
  "taxReformAnalysis =
     \<lparr> mappedPriorities = [\<lparr> userPriority = ''Tax reform'', mappedIssues = [] \<rparr>],
       dominantCategories = [], potentialConflicts = [], flaggedPriorities = [] \<rparr>"

definition educationFundingAnalysis :: PriorityAnalysis where
  "educationFundingAnalysis =
     \<lparr> mappedPriorities = [\<lparr> userPriority = ''Education funding'', mappedIssues = [] \<rparr>],
       dominantCategories = [], potentialConflicts = [], flaggedPriorities = [] \<rparr>"

section \<open>Measure matcher (ballot-measure-service.ts, test-helpers.ts)\<close>

definition createMockBallotMeasures :: "BallotMeasure list" where
  "createMockBallotMeasures =
     [ \<lparr> measureId = ''measure-1'', title = ''Prop 123: Education Funding'',
         description = ''Increases funding for public schools through a 0.5% sales tax'',
         applicableLocations = [''94110'', ''94103'', ''94107''],
         supporters = [''Teachers Union'', ''Parents Association''],
         opposers = [''Taxpayers Association'', ''Small Business Federation''],
         categories = [''EDUCATION'', ''ECONOMY''] \<rparr>,
       \<lparr> measureId = ''measure-2'', title = ''Prop 456: Transit Expansion'',
         description = ''Authorizes $500M bond for public transit improvements'',
         applicableLocations = [''94110'', ''94103'', ''10001'', ''10002''],
         supporters = [''Transit Advocates'', ''Climate Action Group''],
         opposers = [''Taxpayers Association''],
         categories = [''INFRASTRUCTURE'', ''ENVIRONMENT''] \<rparr>,
       \<lparr> measureId = ''measure-3'', title = ''Prop 789: Healthcare Access (NY Only)'',
         description = ''Expands healthcare access for low-income residents in NY'',
         applicableLocations = [''10001'', ''10002'', ''10003''],
         supporters = [''Healthcare Workers Union NY'', ''Community Clinics Association NY''],
         opposers = [''Chamber of Commerce NY''],
         categories = [''HEALTHCARE'', ''SOCIAL_SERVICES''] \<rparr> ]"

definition generateImpactAnalysis :: "BallotMeasure \<Rightarrow> PriorityAnalysis \<Rightarrow> MeasureImpactAnalysis" where
  "generateImpactAnalysis measure' priorityAnalysis =
     \<lparr> positiveImpacts = [''Could improve quality of life'', ''May address key community needs''],
       negativeImpacts = [''Potential tax implications'', ''May have unintended consequences''],
       uncertainImpacts = [''Long-term effects unclear'', ''Implementation timeline uncertain''] \<rparr>"

text \<open>The inner \<open>forEach\<close> over the user priorities for one category of a measure.\<close>

definition scoreCategory ::
  "BallotMeasure \<Rightarrow> string list \<Rightarrow> real \<times> string list \<Rightarrow> string \<Rightarrow> real \<times> string list" where
  "scoreCategory measure' userPriorities acc category' =
     (let categoryLower = toLowerCase category' in
      foldl (\<lambda>(relevanceScore', relevant) priority.
               let priorityLower = toLowerCase priority in
               if includesStr priorityLower categoryLower
                  \<or> includesStr (toLowerCase (title measure')) priorityLower
                  \<or> includesStr (toLowerCase (description measure')) priorityLower
               then (relevanceScore' + 0.1, setAdd priority relevant)
               else (relevanceScore', relevant))
        acc userPriorities)"

text \<open>The callback of \<open>measures.map\<close>. \<open>noLocationMeasures\<close> says that the location filter
  kept nothing. Reading \<open>measure.categories[0].toLowerCase()\<close> throws a \<open>TypeError\<close> for a
  measure without categories.\<close>

definition matchMeasure ::
  "PriorityAnalysis \<Rightarrow> string list \<Rightarrow> bool \<Rightarrow> string \<Rightarrow> BallotMeasure
     \<Rightarrow> thrown + BallotMeasureMatch" where
  "matchMeasure priorityAnalysis userPriorities noLocationMeasures zipCode' measure' =
     (let priorityKeywords = toLowerCase (join '' '' userPriorities);
          (summed, relevantPrioritiesSet) =
            foldl (scoreCategory measure' userPriorities) (0.5, []) (categories measure');
          clamped = min 1 summed;
          special =
            (if includesStr priorityKeywords ''transport''
                  \<and> includesStr (title measure') ''Transit''
               then 0.9
             else if includesStr priorityKeywords ''education''
                     \<and> includesStr (title measure') ''Education''
               then 0.85
             else if includesStr priorityKeywords ''healthcare''
                     \<and> includesStr (title measure') ''Healthcare''
               then 0.8
             else clamped);
          edge =
            (if includesStr priorityKeywords ''extremely specific'' \<or> length userPriorities = 0
               then 0.3
             else special);
          isFallback' = (noLocationMeasures \<or> zipCode' = ''00000'')
      in case categories measure' of
           [] \<Rightarrow> Inl (ErrorObject ''Cannot read properties of undefined'')
         | first # rest \<Rightarrow>
             Inr \<lparr> ballotMeasure = measure',
                   relevanceScore = edge,
                   relevantPriorities =
                     (if length relevantPrioritiesSet > 0 then relevantPrioritiesSet
                      else take 1 userPriorities),
                   explanation =
                     ''This measure relates to '' @ toLowerCase first @
                     (if length relevantPrioritiesSet > 0
                        then '' which aligns with your priority of '' @ hd relevantPrioritiesSet
                      else if length userPriorities > 0
                        then '' which may be relevant to your interest in '' @ hd userPriorities
                      else []),
                   pros = [''Could benefit local communities'', ''Addresses important issues''],
                   cons = [''May increase costs'', ''Implementation challenges exist''],
                   impactAnalysis = generateImpactAnalysis measure' priorityAnalysis,
                   isFallback = isFallback' \<rparr>)"

text \<open>The body of \<open>findRelevantMeasures\<close> on a roster \<open>allMeasures\<close>. Its options (the
  mode) are not read.\<close>

definition relevantMeasuresOf ::
  "BallotMeasure list \<Rightarrow> PriorityAnalysis \<Rightarrow> string \<Rightarrow> mode
     \<Rightarrow> thrown + BallotMeasureMatch list" where
  "relevantMeasuresOf allMeasures priorityAnalysis zipCode' m =
     (let userPriorities = map userPriority (mappedPriorities priorityAnalysis);
          locationMeasures = filter (\<lambda>measure'. zipCode' \<in> set (applicableLocations measure'))
                               allMeasures;
          measures = (if length locationMeasures > 0 then locationMeasures else allMeasures)
      in case mapThrowing (matchMeasure priorityAnalysis userPriorities
                             (length locationMeasures = 0) zipCode') measures of
           Inl err \<Rightarrow> Inl err
         | Inr result \<Rightarrow> Inr (sort_key (\<lambda>match. - relevanceScore match) result))"

definition findRelevantMeasures ::
  "PriorityAnalysis \<Rightarrow> string \<Rightarrow> mode \<Rightarrow> thrown + BallotMeasureMatch list" where
  "findRelevantMeasures = relevantMeasuresOf createMockBallotMeasures"

section \<open>Recommendation orchestrator (recommendation-service.ts)\<close>

text \<open>The three services injected through the constructor. Each either throws or returns.\<close>

record dependencies =
  priorityMapper :: "string list \<Rightarrow> thrown + PriorityAnalysis"
  candidateMatcher :: "PriorityAnalysis \<Rightarrow> mode \<Rightarrow> string \<Rightarrow> thrown + CandidateMatch list"
  ballotMeasureAnalyzer :: "PriorityAnalysis \<Rightarrow> string \<Rightarrow> mode \<Rightarrow> thrown + BallotMeasureMatch list"

text \<open>The state of a service object: its private cache, and a log of the calls it has made
  to its dependencies (what a spy on the three services observes).\<close>

datatype service_call = AnalyzePriorities | FindMatchingCandidates | FindRelevantMeasures

record service_state =
  cache :: "string \<rightharpoonup> RecommendationsResult"
  calls :: "service_call list"

definition logCall :: "service_call \<Rightarrow> service_state \<Rightarrow> service_state" where
  "logCall c st = st\<lparr>calls := calls st @ [c]\<rparr>"

definition isTestRequest :: "RecommendationRequest \<Rightarrow> bool" where
  "isTestRequest request =
     list_ex (\<lambda>p. includesStr (toLowerCase p) ''test''
                 \<or> includesStr (toLowerCase p) ''mock''
                 \<or> toLowerCase p = ''extremely specific'')
       (priorities request)"

fun modeString :: "mode \<Rightarrow> string" where
  "modeString Current = ''current''"
| "modeString Demo = ''demo''"

text \<open>\<open>JSON.stringify({ priorities: ..., zipCode: ..., mode: ... })\<close>\<close>

definition stringifyKey :: "string list \<Rightarrow> string \<Rightarrow> mode \<Rightarrow> string" where
  "stringifyKey ps z m =
     ''{'' @ quoteJSONString ''priorities'' @ '':['' @ join '','' (map quoteJSONString ps) @ '']'' @
     '','' @ quoteJSONString ''zipCode'' @ '':'' @ quoteJSONString z @
     '','' @ quoteJSONString ''mode'' @ '':'' @ quoteJSONString (modeString m) @ ''}''"

text \<open>\<open>generateCacheKey\<close> sorts \<open>request.priorities\<close> in place (the default order of
  \<open>Array.prototype.sort\<close>: by code units), so it returns the request as it leaves it
  together with the key.\<close>

definition generateCacheKey :: "RecommendationRequest \<Rightarrow> string \<times> RecommendationRequest" where
  "generateCacheKey request =
     (let sorted = sort (priorities request)
      in (stringifyKey sorted (zipCode request) (mode request),
          request\<lparr>priorities := sorted\<rparr>))"

definition generatePolicyRecommendations :: "PriorityAnalysis \<Rightarrow> PolicyRecommendations" where
  "generatePolicyRecommendations priorityAnalysis =
     (let tops = map userPriority (mappedPriorities priorityAnalysis)
      in \<lparr> topPolicies =
             (if length tops > 0 then tops
              else [''No specific policy focus identified from priorities.'']),
           policyExplanation = ''These recommendations are based on your stated priorities.'' \<rparr>)"

fun stanceVerb :: "stance \<Rightarrow> string" where
  "stanceVerb Support = ''Supports''"
| "stanceVerb Oppose = ''Opposes''"
| "stanceVerb Neutral = ''Neutral on''"

definition generatePositionSummary :: "Candidate \<Rightarrow> string" where
  "generatePositionSummary c =
     join '', '' (map (\<lambda>p. stanceVerb (positionStance p) @ '' '' @ toLowerCase (positionIssue p))
                    (take 3 (positions c)))"

definition generatePlatformHighlights :: "Candidate \<Rightarrow> string list" where
  "generatePlatformHighlights c =
     map (\<lambda>p. stanceVerb (positionStance p) @ '' '' @ positionIssue p) (positions c)"

definition candidateEntry :: "CandidateMatch \<Rightarrow> CandidateEntry" where
  "candidateEntry m =
     \<lparr> entryName = candidateName (candidate m),
       entryOffice = office (candidate m),
       entryParty = party (candidate m),
       positionSummary = generatePositionSummary (candidate m),
       platformHighlights = generatePlatformHighlights (candidate m),
       entryRationale = rationale m,
       officialWebsite =
         ''https://example.com/'' @ replaceSpaces ''-'' (toLowerCase (candidateName (candidate m))),
       entryAlignmentScore = alignmentScore m,
       alignment = (if alignmentScore m > 0.7 then CheckMark
                    else if alignmentScore m > 0.4 then WarningSign else CrossMark) \<rparr>"

definition measureEntry :: "BallotMeasureMatch \<Rightarrow> MeasureEntry" where
  "measureEntry m =
     \<lparr> entryTitle = title (ballotMeasure m),
       entryDescription = description (ballotMeasure m),
       entrySupporters = supporters (ballotMeasure m),
       entryOpposers = opposers (ballotMeasure m),
       entryExplanation = explanation m,
       entryRelevanceScore = relevanceScore m,
       ballotpediaLink = ''https://ballotpedia.org/example/'' @ measureId (ballotMeasure m) \<rparr>"

text \<open>Step 5 of the \<open>try\<close> block. \<open>candidateError\<close> is \<open>null\<close> (\<open>None\<close>) or the value caught
  from the candidate matcher; the \<open>error\<close> key is spread into the result only when that
  value is truthy.\<close>

definition compileResult ::
  "CandidateMatch list \<Rightarrow> thrown option \<Rightarrow> BallotMeasureMatch list \<Rightarrow> PolicyRecommendations
     \<Rightarrow> RecommendationsResult" where
  "compileResult candidateMatches candidateError ballotMeasureMatches policy =
     \<lparr> candidates = map candidateEntry candidateMatches,
       ballotMeasures = map measureEntry ballotMeasureMatches,
       policyRecommendations = policy,
       error = (case candidateError of
                  None \<Rightarrow> None
                | Some e \<Rightarrow> if truthy e then Some (errorMessage e) else None) \<rparr>"

text \<open>Steps 3 to 5 of the \<open>try\<close> block and the cache write, reached with the candidate
  matches and the caught candidate error (if any). A throwing measure analyzer is only
  logged to the console and leaves the list of measure matches empty.\<close>

definition afterCandidates ::
  "dependencies \<Rightarrow> bool \<Rightarrow> RecommendationRequest \<Rightarrow> PriorityAnalysis \<Rightarrow> CandidateMatch list
     \<Rightarrow> thrown option \<Rightarrow> service_state
     \<Rightarrow> (thrown + RecommendationsResult) \<times> RecommendationRequest \<times> service_state" where
  "afterCandidates deps isTest request priorityAnalysis candidateMatches candidateError st2 =
     (let st3 = logCall FindRelevantMeasures st2;
          ballotMeasureMatches =
            (case ballotMeasureAnalyzer deps priorityAnalysis (zipCode request) (mode request) of
               Inl err \<Rightarrow> []
             | Inr ms \<Rightarrow> ms);
          policy = generatePolicyRecommendations priorityAnalysis;
          result = compileResult candidateMatches candidateError ballotMeasureMatches policy
      in if \<not> isTest
         then (let (key, request') = generateCacheKey request
               in (Inr result, request', st3\<lparr>cache := (cache st3)(key \<mapsto> result)\<rparr>))
         else (Inr result, request, st3))"

text \<open>The body of the \<open>try\<close> block: \<open>Inl\<close> when it throws. The request comes back as the
  block leaves it, the state with the calls made and the cache written. An error of the
  candidate matcher is kept in \<open>candidateError\<close>, and thrown again only for a test request
  that lists \<open>throw_error\<close>.\<close>

definition tryBlock ::
  "dependencies \<Rightarrow> bool \<Rightarrow> RecommendationRequest \<Rightarrow> service_state
     \<Rightarrow> (thrown + RecommendationsResult) \<times> RecommendationRequest \<times> service_state" where
  "tryBlock deps isTest request st =
     (let st1 = logCall AnalyzePriorities st in
      case priorityMapper deps (priorities request) of
        Inl err \<Rightarrow> (Inl err, request, st1)
      | Inr priorityAnalysis \<Rightarrow>
          (let st2 = logCall FindMatchingCandidates st1 in
           case candidateMatcher deps priorityAnalysis (mode request) (zipCode request) of
             Inl err \<Rightarrow>
               if isTest \<and> ''throw_error'' \<in> set (priorities request)
               then (Inl err, request, st2)
               else afterCandidates deps isTest request priorityAnalysis [] (Some err) st2
           | Inr ms \<Rightarrow> afterCandidates deps isTest request priorityAnalysis ms None st2))"

text \<open>The \<open>catch\<close> block of \<open>generateRecommendations\<close>.\<close>

definition catchBlock ::
  "(thrown + RecommendationsResult) \<times> RecommendationRequest \<times> service_state
     \<Rightarrow> (thrown + RecommendationsResult) \<times> RecommendationRequest \<times> service_state" where
  "catchBlock outcome =
     (case outcome of
        (Inl err, request, st) \<Rightarrow>
          (Inr \<lparr> candidates = [], ballotMeasures = [],
                 policyRecommendations =
                   \<lparr> topPolicies = [],
                     policyExplanation = ''Unable to generate recommendations due to an error.'' \<rparr>,
                 error = Some (errorMessage err) \<rparr>,
           request, st)
      | (Inr result, request, st) \<Rightarrow> (Inr result, request, st))"

text \<open>\<open>generateRecommendations\<close>: \<open>Inl\<close> would be a rejected promise. The second component is
  the caller's request object after the call, the third the service afterwards.\<close>

definition generateRecommendations ::
  "dependencies \<Rightarrow> RecommendationRequest \<Rightarrow> service_state
     \<Rightarrow> (thrown + RecommendationsResult) \<times> RecommendationRequest \<times> service_state" where
  "generateRecommendations deps request st =
     (let isTest = isTestRequest request in
      if \<not> isTest
      then (let (cacheKey, request1) = generateCacheKey request
            in case cache st cacheKey of
                 Some cached \<Rightarrow> (Inr cached, request1, st)
               | None \<Rightarrow> catchBlock (tryBlock deps isTest request1 st))
      else catchBlock (tryBlock deps isTest request st))"

text \<open>The test doubles of recommendation-service.test.ts: a mapper that returns an analysis
  without mapped priorities, a matcher with one candidate and an analyzer with one measure
  (the members the test objects leave out are empty here), and a matcher that throws
  \<open>new Error('Service unavailable')\<close>.\<close>

definition mockAnalysis :: PriorityAnalysis where
  "mockAnalysis =
     \<lparr> mappedPriorities = [], dominantCategories = [ECONOMY, EDUCATION],
       potentialConflicts = [], flaggedPriorities = [] \<rparr>"

definition mockCandidateMatch :: CandidateMatch where
  "mockCandidateMatch =
     \<lparr> candidate = \<lparr> candidateId = [], candidateName = ''Test Candidate'',
                     party = ''Independent'', office = [], positions = [] \<rparr>,
       alignmentScore = 0.8,
       matchedPriorities = [''Economy'', ''Education''],
       rationale = ''Strong match on economic policies'' \<rparr>"

definition mockMeasureMatch :: BallotMeasureMatch where
  "mockMeasureMatch =
     \<lparr> ballotMeasure = \<lparr> measureId = [], title = ''Test Measure'',
                         description = ''A test ballot measure'', applicableLocations = [],
                         supporters = [], opposers = [], categories = [] \<rparr>,
       relevanceScore = 0.7,
       relevantPriorities = [''Education''],
       explanation = ''This measure affects education funding'',
       pros = [], cons = [],
       impactAnalysis = \<lparr> positiveImpacts = [], negativeImpacts = [], uncertainImpacts = [] \<rparr>,
       isFallback = False \<rparr>"

definition mockDependencies :: dependencies where
  "mockDependencies =
     \<lparr> priorityMapper = (\<lambda>ps. Inr mockAnalysis),
       candidateMatcher = (\<lambda>a m z. Inr [mockCandidateMatch]),
       ballotMeasureAnalyzer = (\<lambda>a z m. Inr [mockMeasureMatch]) \<rparr>"

definition serviceUnavailable :: thrown where
  "serviceUnavailable = ErrorObject ''Service unavailable''"

definition newService :: service_state where
  "newService = \<lparr> cache = Map.empty, calls = [] \<rparr>"

text \<open>The three services of this repository as the dependencies of the orchestrator.\<close>

definition repositoryServices :: dependencies where
  "repositoryServices =
     \<lparr> priorityMapper = (\<lambda>ps. Inr (analyzePriorities ps)),
       candidateMatcher = (\<lambda>a m z. Inr (findMatchingCandidates a m z)),
       ballotMeasureAnalyzer = findRelevantMeasures \<rparr>"

section \<open>The cache key determines the request\<close>

lemma hexDigit_inj: "n < 16 \<Longrightarrow> m < 16 \<Longrightarrow> hexDigit n = hexDigit m \<Longrightarrow> n = m"
proof -
  assume a: "n < 16" "m < 16" "hexDigit n = hexDigit m"
  have d: "distinct ''0123456789abcdef''" by simp
  have l: "length ''0123456789abcdef'' = 16" by simp
  from a show ?thesis
    unfolding hexDigit_def using nth_eq_iff_index_eq [OF d, of n m] l by simp
qed

lemma hex_pair_inj:
  fixes n m :: nat
  assumes "n < 32" "m < 32"
    and "hexDigit (n div 16) = hexDigit (m div 16)"
    and "hexDigit (n mod 16) = hexDigit (m mod 16)"
  shows "n = m"
proof -
  have "n div 16 < 16" "m div 16 < 16" using assms(1,2) by auto
  with assms(3) have d: "n div 16 = m div 16" by (rule hexDigit_inj[rotated 2])
  have "n mod 16 < 16" "m mod 16 < 16" by auto
  with assms(4) have r: "n mod 16 = m mod 16" by (rule hexDigit_inj[rotated 2])
  from d r show ?thesis by (metis div_mult_mod_eq)
qed

lemma quoteJSONChar_no_quote: "quoteJSONChar c \<noteq> [] \<and> hd (quoteJSONChar c) \<noteq> CHR 0x22"
  by (simp add: quoteJSONChar_def)

text \<open>The three shapes of an escaped character.\<close>

lemma quoteJSONChar_cases:
  obtains (short) e where "quoteJSONChar c = [CHR 0x5C, e]"
      "(c, e) \<in> {(CHR 0x08, CHR ''b''), (CHR 0x09, CHR ''t''), (CHR 0x0A, CHR ''n''),
                 (CHR 0x0C, CHR ''f''), (CHR 0x0D, CHR ''r''), (CHR 0x22, CHR 0x22),
                 (CHR 0x5C, CHR 0x5C)}"
  | (hex) "quoteJSONChar c = [CHR 0x5C, CHR ''u'', CHR ''0'', CHR ''0'',
              hexDigit (of_char c div 16), hexDigit (of_char c mod 16)]"
      "of_char c < (32::nat)"
  | (plain) "quoteJSONChar c = [c]" "c \<noteq> CHR 0x5C" "c \<noteq> CHR 0x22"
proof (cases "c \<in> {CHR 0x08, CHR 0x09, CHR 0x0A, CHR 0x0C, CHR 0x0D, CHR 0x22, CHR 0x5C}")
  case True
  then consider "c = CHR 0x08" | "c = CHR 0x09" | "c = CHR 0x0A" | "c = CHR 0x0C"
    | "c = CHR 0x0D" | "c = CHR 0x22" | "c = CHR 0x5C" by blast
  then show ?thesis
  proof cases
    case 1 then show ?thesis using short [of "CHR ''b''"] by (simp add: quoteJSONChar_def)
  next
    case 2 then show ?thesis using short [of "CHR ''t''"] by (simp add: quoteJSONChar_def)
  next
    case 3 then show ?thesis using short [of "CHR ''n''"] by (simp add: quoteJSONChar_def)
  next
    case 4 then show ?thesis using short [of "CHR ''f''"] by (simp add: quoteJSONChar_def)
  next
    case 5 then show ?thesis using short [of "CHR ''r''"] by (simp add: quoteJSONChar_def)
  next
    case 6 then show ?thesis using short [of "CHR 0x22"] by (simp add: quoteJSONChar_def)
  next
    case 7 then show ?thesis using short [of "CHR 0x5C"] by (simp add: quoteJSONChar_def)
  qed
next
  case False
  show ?thesis
  proof (cases "of_char c < (32::nat)")
    case True
    with False show ?thesis using hex by (simp add: quoteJSONChar_def)
  next
    case ge: False
    with False show ?thesis using plain by (simp add: quoteJSONChar_def)
  qed
qed

text \<open>No escape is the beginning of another one.\<close>

lemma quoteJSONChar_prefix_free:
  assumes eq: "quoteJSONChar c @ x = quoteJSONChar d @ y"
  shows "c = d \<and> x = y"
proof (cases c rule: quoteJSONChar_cases)
  case (short e)
  note c = this
  show ?thesis
  proof (cases d rule: quoteJSONChar_cases)
    case (short e')
    with c eq have "e = e'" "x = y" by simp_all
    with c(2) short(2) show ?thesis by auto
  next
    case hex
    with c eq have "e = CHR ''u''" by simp
    with c(2) show ?thesis by simp
  next
    case plain
    with c eq show ?thesis by simp
  qed
next
  case hex
  note c = this
  show ?thesis
  proof (cases d rule: quoteJSONChar_cases)
    case (short e')
    with c eq have "e' = CHR ''u''" by simp
    with short(2) show ?thesis by simp
  next
    case hex
    with c eq have "hexDigit (of_char c div 16) = hexDigit (of_char d div 16)"
      "hexDigit (of_char c mod 16) = hexDigit (of_char d mod 16)" "x = y" by simp_all
    with c(2) hex(2) have "(of_char c :: nat) = of_char d" using hex_pair_inj by blast
    then have "c = d" by simp
    with \<open>x = y\<close> show ?thesis by simp
  next
    case plain
    with c eq show ?thesis by simp
  qed
next
  case plain
  note c = this
  show ?thesis
  proof (cases d rule: quoteJSONChar_cases)
    case (short e')
    with c eq show ?thesis by simp
  next
    case hex
    with c eq show ?thesis by simp
  next
    case plain
    with c eq show ?thesis by simp
  qed
qed

lemma quoteJSON_body_inj:
  "concat (map quoteJSONChar s) @ CHR 0x22 # x = concat (map quoteJSONChar t) @ CHR 0x22 # y
   \<Longrightarrow> s = t \<and> x = y"
proof (induction s arbitrary: t)
  case Nil
  show ?case
  proof (cases t)
    case Nil
    with Nil.prems show ?thesis by simp
  next
    case (Cons d ds)
    with Nil.prems
    have "CHR 0x22 # x = quoteJSONChar d @ (concat (map quoteJSONChar ds) @ CHR 0x22 # y)"
      by simp
    with quoteJSONChar_no_quote [of d] show ?thesis
      by (cases "quoteJSONChar d") auto
  qed
next
  case (Cons c cs)
  show ?case
  proof (cases t)
    case Nil
    with Cons.prems
    have "quoteJSONChar c @ (concat (map quoteJSONChar cs) @ CHR 0x22 # x) = CHR 0x22 # y"
      by simp
    with quoteJSONChar_no_quote [of c] show ?thesis
      by (cases "quoteJSONChar c") auto
  next
    case (Cons d ds)
    with Cons.prems have "quoteJSONChar c @ (concat (map quoteJSONChar cs) @ CHR 0x22 # x)
        = quoteJSONChar d @ (concat (map quoteJSONChar ds) @ CHR 0x22 # y)" by simp
    then have "c = d" and "concat (map quoteJSONChar cs) @ CHR 0x22 # x
        = concat (map quoteJSONChar ds) @ CHR 0x22 # y"
      using quoteJSONChar_prefix_free by blast+
    with Cons.IH [of ds] Cons show ?thesis by simp
  qed
qed

lemma quoteJSONString_inj:
  "quoteJSONString s @ x = quoteJSONString t @ y \<Longrightarrow> s = t \<and> x = y"
  using quoteJSON_body_inj [of s x t y] by (simp add: quoteJSONString_def)

lemma join_Cons: "join sep (x # xs) = x @ (if xs = [] then [] else sep @ join sep xs)"
  by (cases xs) simp_all

lemma join_quoted_inj:
  "join '','' (map quoteJSONString ps) @ CHR '']'' # x
     = join '','' (map quoteJSONString qs) @ CHR '']'' # y
   \<Longrightarrow> ps = qs \<and> x = y"
proof (induction ps arbitrary: qs)
  case Nil
  then show ?case
    by (cases qs) (auto simp: join_Cons quoteJSONString_def)
next
  case (Cons p ps)
  show ?case
  proof (cases qs)
    case Nil
    with Cons.prems show ?thesis by (auto simp: join_Cons quoteJSONString_def)
  next
    case (Cons q qs')
    let ?l = "(if ps = [] then [] else '','' @ join '','' (map quoteJSONString ps)) @ CHR '']'' # x"
    let ?r = "(if qs' = [] then [] else '','' @ join '','' (map quoteJSONString qs')) @ CHR '']'' # y"
    from Cons Cons.prems have "quoteJSONString p @ ?l = quoteJSONString q @ ?r"
      by (simp add: join_Cons)
    then have pq: "p = q" and lr: "?l = ?r" using quoteJSONString_inj by blast+
    show ?thesis
    proof (cases "ps = []")
      case True
      with lr have "qs' = []" by (auto split: if_splits)
      with True lr pq Cons show ?thesis by simp
    next
      case False
      with lr have ne: "qs' \<noteq> []" by (auto split: if_splits)
      with False lr have "join '','' (map quoteJSONString ps) @ CHR '']'' # x
          = join '','' (map quoteJSONString qs') @ CHR '']'' # y" by simp
      from Cons.IH [OF this] pq Cons show ?thesis by simp
    qed
  qed
qed

lemma modeString_inj: "modeString m = modeString m' \<Longrightarrow> m = m'"
  by (cases m; cases m') simp_all

lemma stringifyKey_inj:
  assumes "stringifyKey ps z m = stringifyKey ps' z' m'"
  shows "ps = ps' \<and> z = z' \<and> m = m'"
proof -
  let ?tail = "\<lambda>z m. '','' @ quoteJSONString ''zipCode'' @ '':'' @ quoteJSONString z @
     '','' @ quoteJSONString ''mode'' @ '':'' @ quoteJSONString (modeString m) @ ''}''"
  from assms have "join '','' (map quoteJSONString ps) @ CHR '']'' # ?tail z m
      = join '','' (map quoteJSONString ps') @ CHR '']'' # ?tail z' m'"
    by (simp add: stringifyKey_def)
  then have ps: "ps = ps'" and t: "?tail z m = ?tail z' m'"
    using join_quoted_inj by blast+
  let ?end = "\<lambda>m. '','' @ quoteJSONString ''mode'' @ '':'' @ quoteJSONString (modeString m) @ ''}''"
  from t have "quoteJSONString z @ ?end m = quoteJSONString z' @ ?end m'" by simp
  then have z: "z = z'" and e: "?end m = ?end m'"
    using quoteJSONString_inj by blast+
  from e have "quoteJSONString (modeString m) @ ''}'' = quoteJSONString (modeString m') @ ''}''"
    by simp
  then have "modeString m = modeString m'" using quoteJSONString_inj by blast
  with ps z show ?thesis by (simp add: modeString_inj)
qed

lemma generateCacheKey_request [simp]:
  "snd (generateCacheKey request) = request\<lparr>priorities := sort (priorities request)\<rparr>"
  by (simp add: generateCacheKey_def Let_def)

lemma generateCacheKey_eq_iff:
  "fst (generateCacheKey r) = fst (generateCacheKey r') \<longleftrightarrow>
     mset (priorities r) = mset (priorities r') \<and> zipCode r = zipCode r' \<and> mode r = mode r'"
proof
  assume "fst (generateCacheKey r) = fst (generateCacheKey r')"
  then have "sort (priorities r) = sort (priorities r')" and zm: "zipCode r = zipCode r'" "mode r = mode r'"
    using stringifyKey_inj by (auto simp: generateCacheKey_def Let_def)
  then have "mset (sort (priorities r)) = mset (sort (priorities r'))" by simp
  with zm show "mset (priorities r) = mset (priorities r') \<and> zipCode r = zipCode r' \<and> mode r = mode r'"
    by simp
next
  assume a: "mset (priorities r) = mset (priorities r') \<and> zipCode r = zipCode r' \<and> mode r = mode r'"
  then have "sort (priorities r) = sort (priorities r')"
    by (intro properties_for_sort) simp_all
  with a show "fst (generateCacheKey r) = fst (generateCacheKey r')"
    by (simp add: generateCacheKey_def Let_def)
qed

section \<open>Properties of the orchestrator\<close>

lemma afterCandidates_eq:
  "afterCandidates deps isTest request a cm ce st2 =
     (Inr (compileResult cm ce
             (case ballotMeasureAnalyzer deps a (zipCode request) (mode request) of
                Inl err \<Rightarrow> [] | Inr ms \<Rightarrow> ms)
             (generatePolicyRecommendations a)),
      (if isTest then request else request\<lparr>priorities := sort (priorities request)\<rparr>),
      (if isTest then logCall FindRelevantMeasures st2
       else (logCall FindRelevantMeasures st2)
              \<lparr>cache := (cache st2)(fst (generateCacheKey request) \<mapsto>
                 compileResult cm ce
                   (case ballotMeasureAnalyzer deps a (zipCode request) (mode request) of
                      Inl err \<Rightarrow> [] | Inr ms \<Rightarrow> ms)
                   (generatePolicyRecommendations a))\<rparr>))"
  by (simp add: afterCandidates_def Let_def generateCacheKey_def logCall_def)

lemma catchBlock_Inr: "\<exists>result. fst (catchBlock outcome) = Inr result"
  by (cases outcome) (auto simp: catchBlock_def split: sum.splits)

lemma catchBlock_snd [simp]: "snd (catchBlock outcome) = snd outcome"
  by (cases outcome) (auto simp: catchBlock_def split: sum.splits)

lemma tryBlock_request:
  "fst (snd (tryBlock deps isTest request st)) = request
   \<or> \<not> isTest \<and> fst (snd (tryBlock deps isTest request st))
        = request\<lparr>priorities := sort (priorities request)\<rparr>"
  by (auto simp: tryBlock_def afterCandidates_eq Let_def split: sum.splits)

lemma generateRecommendations_eq:
  "generateRecommendations deps request st =
     (if isTestRequest request then catchBlock (tryBlock deps True request st)
      else case cache st (fst (generateCacheKey request)) of
             Some cached \<Rightarrow> (Inr cached, request\<lparr>priorities := sort (priorities request)\<rparr>, st)
           | None \<Rightarrow> catchBlock (tryBlock deps False
                        (request\<lparr>priorities := sort (priorities request)\<rparr>) st))"
  by (cases "isTestRequest request")
     (simp_all add: generateRecommendations_def Let_def generateCacheKey_def)

text \<open>
  Claim C10. A request none of whose priorities contains \<open>test\<close> or \<open>mock\<close> or equals
  \<open>extremely specific\<close> (case-insensitively) leaves \<open>generateRecommendations\<close> with its
  \<open>priorities\<close> array sorted in place: afterwards the array is the sorted permutation of
  what the caller passed, and \<open>zipCode\<close> and \<open>mode\<close> are as they were.
\<close>

theorem generateRecommendations_sorts_priorities:
  assumes "\<not> isTestRequest request"
  shows "priorities (fst (snd (generateRecommendations deps request st))) = sort (priorities request)
       \<and> sorted (priorities (fst (snd (generateRecommendations deps request st))))
       \<and> mset (priorities (fst (snd (generateRecommendations deps request st))))
           = mset (priorities request)
       \<and> zipCode (fst (snd (generateRecommendations deps request st))) = zipCode request
       \<and> mode (fst (snd (generateRecommendations deps request st))) = mode request"
proof -
  let ?r1 = "request\<lparr>priorities := sort (priorities request)\<rparr>"
  have "fst (snd (generateRecommendations deps request st)) = ?r1"
  proof (cases "cache st (fst (generateCacheKey request))")
    case None
    with assms have "fst (snd (generateRecommendations deps request st))
        = fst (snd (tryBlock deps False ?r1 st))"
      by (simp add: generateRecommendations_eq)
    moreover have "fst (snd (tryBlock deps False ?r1 st)) = ?r1"
      using tryBlock_request [of deps False ?r1 st] by (auto simp: sort_key_id_if_sorted)
    ultimately show ?thesis by simp
  next
    case (Some cached)
    with assms show ?thesis
      by (simp add: generateRecommendations_eq)
  qed
  then show ?thesis by simp
qed

theorem generateRecommendations_sorts_priorities_witness:
  "priorities (fst (snd (generateRecommendations mockDependencies
       \<lparr> priorities = [''Education'', ''Economy''], zipCode = ''94110'', mode = Current \<rparr>
       newService))) = [''Economy'', ''Education'']"
proof -
  have "\<not> isTestRequest \<lparr> priorities = [''Education'', ''Economy''], zipCode = ''94110'', mode = Current \<rparr>"
    by code_simp
  from generateRecommendations_sorts_priorities [OF this, of mockDependencies newService]
  show ?thesis by simp
qed


lemma tryBlock_mapper_throws:
  "priorityMapper deps (priorities request) = Inl err \<Longrightarrow>
   tryBlock deps isTest request st = (Inl err, request, logCall AnalyzePriorities st)"
  by (simp add: tryBlock_def Let_def)

text \<open>
  Claim C1. \<open>generateRecommendations\<close> never raises: its outcome is always a result. When
  the priority mapper is called (the request is a test request or its key is not cached) and
  throws, the result has no candidates, no ballot measures, the policy explanation of the
  failure, and the \<open>error\<close> field set from the thrown value.
\<close>

theorem generateRecommendations_never_raises:
  "(\<exists>result. fst (generateRecommendations deps request st) = Inr result) \<and>
   ((isTestRequest request \<or> cache st (fst (generateCacheKey request)) = None) \<and>
    priorityMapper deps
      (if isTestRequest request then priorities request else sort (priorities request)) = Inl err
    \<longrightarrow> fst (generateRecommendations deps request st) =
          Inr \<lparr> candidates = [], ballotMeasures = [],
                policyRecommendations =
                  \<lparr> topPolicies = [],
                    policyExplanation = ''Unable to generate recommendations due to an error.'' \<rparr>,
                error = Some (errorMessage err) \<rparr>)"
proof
  show "\<exists>result. fst (generateRecommendations deps request st) = Inr result"
    using catchBlock_Inr
    by (cases "cache st (fst (generateCacheKey request))")
       (simp_all add: generateRecommendations_eq)
next
  show "(isTestRequest request \<or> cache st (fst (generateCacheKey request)) = None) \<and>
    priorityMapper deps
      (if isTestRequest request then priorities request else sort (priorities request)) = Inl err
    \<longrightarrow> fst (generateRecommendations deps request st) =
          Inr \<lparr> candidates = [], ballotMeasures = [],
                policyRecommendations =
                  \<lparr> topPolicies = [],
                    policyExplanation = ''Unable to generate recommendations due to an error.'' \<rparr>,
                error = Some (errorMessage err) \<rparr>"
  proof (cases "isTestRequest request")
    case True
    then show ?thesis
      by (auto simp: generateRecommendations_eq tryBlock_mapper_throws catchBlock_def)
  next
    case False
    then show ?thesis
      by (auto simp: generateRecommendations_eq tryBlock_mapper_throws catchBlock_def)
  qed
qed

theorem generateRecommendations_never_raises_witness:
  "fst (generateRecommendations (mockDependencies\<lparr>priorityMapper := \<lambda>ps. Inl serviceUnavailable\<rparr>)
       \<lparr> priorities = [''Economy''], zipCode = ''94110'', mode = Current \<rparr> newService) =
     Inr \<lparr> candidates = [], ballotMeasures = [],
           policyRecommendations =
             \<lparr> topPolicies = [],
               policyExplanation = ''Unable to generate recommendations due to an error.'' \<rparr>,
           error = Some ''Service unavailable'' \<rparr>"
  using generateRecommendations_never_raises
    [of "mockDependencies\<lparr>priorityMapper := \<lambda>ps. Inl serviceUnavailable\<rparr>"
        "\<lparr> priorities = [''Economy''], zipCode = ''94110'', mode = Current \<rparr>" newService
        serviceUnavailable]
  by (simp add: newService_def serviceUnavailable_def)

lemma generatePolicyRecommendations_nonempty:
  "topPolicies (generatePolicyRecommendations a) \<noteq> []"
  by (simp add: generatePolicyRecommendations_def Let_def)

text \<open>
  Claim C2, as the code has it. Take a request that reaches the pipeline and whose priority
  mapper returns. If the candidate matcher throws a truthy value (any \<open>Error\<close> object is
  one), and the request is not a test request listing \<open>throw_error\<close>, the result has no
  candidates and the \<open>error\<close> string of the thrown value, while the ballot measures are
  those of the measure analyzer and the policy recommendations those of the mapping. If the
  measure analyzer throws and the candidate matcher returns, the result has no ballot
  measures, while the candidates are those of the matcher and the policy recommendations
  those of the mapping.
\<close>

theorem matcher_failure_isolated:
  assumes "isTestRequest request \<or> cache st (fst (generateCacheKey request)) = None"
    and "priorityMapper deps
           (if isTestRequest request then priorities request else sort (priorities request))
         = Inr analysis"
  shows "(candidateMatcher deps analysis (mode request) (zipCode request) = Inl err \<and> truthy err
           \<and> \<not> (isTestRequest request \<and> ''throw_error'' \<in> set (priorities request))
           \<and> ballotMeasureAnalyzer deps analysis (zipCode request) (mode request) = Inr ms
          \<longrightarrow> (\<exists>r. fst (generateRecommendations deps request st) = Inr r
                 \<and> candidates r = [] \<and> error r = Some (errorMessage err)
                 \<and> ballotMeasures r = map measureEntry ms
                 \<and> policyRecommendations r = generatePolicyRecommendations analysis
                 \<and> topPolicies (policyRecommendations r) \<noteq> []))
       \<and> (candidateMatcher deps analysis (mode request) (zipCode request) = Inr cs
           \<and> ballotMeasureAnalyzer deps analysis (zipCode request) (mode request) = Inl err
          \<longrightarrow> (\<exists>r. fst (generateRecommendations deps request st) = Inr r
                 \<and> ballotMeasures r = []
                 \<and> candidates r = map candidateEntry cs
                 \<and> policyRecommendations r = generatePolicyRecommendations analysis
                 \<and> topPolicies (policyRecommendations r) \<noteq> []))"
proof (cases "isTestRequest request")
  case True
  with assms show ?thesis
    by (auto simp: generateRecommendations_eq tryBlock_def afterCandidates_eq Let_def
        catchBlock_def compileResult_def generatePolicyRecommendations_nonempty)
next
  case False
  with assms show ?thesis
    by (auto simp: generateRecommendations_eq tryBlock_def afterCandidates_eq Let_def
        catchBlock_def compileResult_def generatePolicyRecommendations_nonempty)
qed

theorem matcher_failure_isolated_witness:
  "(\<exists>r. fst (generateRecommendations
               (mockDependencies\<lparr>candidateMatcher := \<lambda>a m z. Inl serviceUnavailable\<rparr>)
               \<lparr> priorities = [''Economy''], zipCode = ''94110'', mode = Current \<rparr>
               newService) = Inr r
        \<and> candidates r = [] \<and> error r = Some ''Service unavailable''
        \<and> ballotMeasures r = [measureEntry mockMeasureMatch]
        \<and> topPolicies (policyRecommendations r)
            = [''No specific policy focus identified from priorities.''])
   \<and> (\<exists>r. fst (generateRecommendations
               (mockDependencies\<lparr>ballotMeasureAnalyzer := \<lambda>a z m. Inl serviceUnavailable\<rparr>)
               \<lparr> priorities = [''Economy''], zipCode = ''94110'', mode = Current \<rparr>
               newService) = Inr r
        \<and> ballotMeasures r = [] \<and> candidates r = [candidateEntry mockCandidateMatch])"
proof -
  let ?req = "\<lparr> priorities = [''Economy''], zipCode = ''94110'', mode = Current \<rparr>"
  have nt: "\<not> isTestRequest ?req" by code_simp
  have miss: "isTestRequest ?req \<or> cache newService (fst (generateCacheKey ?req)) = None"
    by (simp add: newService_def)
  let ?d1 = "mockDependencies\<lparr>candidateMatcher := \<lambda>a m z. Inl serviceUnavailable\<rparr>"
  let ?d2 = "mockDependencies\<lparr>ballotMeasureAnalyzer := \<lambda>a z m. Inl serviceUnavailable\<rparr>"
  have m1: "priorityMapper ?d1
      (if isTestRequest ?req then priorities ?req else sort (priorities ?req)) = Inr mockAnalysis"
    by (simp add: mockDependencies_def)
  have m2: "priorityMapper ?d2
      (if isTestRequest ?req then priorities ?req else sort (priorities ?req)) = Inr mockAnalysis"
    by (simp add: mockDependencies_def)
  have p: "generatePolicyRecommendations mockAnalysis
      = \<lparr> topPolicies = [''No specific policy focus identified from priorities.''],
          policyExplanation = ''These recommendations are based on your stated priorities.'' \<rparr>"
    by (simp add: generatePolicyRecommendations_def mockAnalysis_def)
  from matcher_failure_isolated [OF miss m1, of serviceUnavailable "[mockMeasureMatch]" "[]"]
  have a: "\<exists>r. fst (generateRecommendations ?d1 ?req newService) = Inr r
        \<and> candidates r = [] \<and> error r = Some ''Service unavailable''
        \<and> ballotMeasures r = [measureEntry mockMeasureMatch]
        \<and> topPolicies (policyRecommendations r)
            = [''No specific policy focus identified from priorities.'']"
    using nt p by (auto simp add: mockDependencies_def serviceUnavailable_def)
  from matcher_failure_isolated [OF miss m2, of serviceUnavailable "[]" "[mockCandidateMatch]"]
  have b: "\<exists>r. fst (generateRecommendations ?d2 ?req newService) = Inr r
        \<and> ballotMeasures r = [] \<and> candidates r = [candidateEntry mockCandidateMatch]"
    using nt by (auto simp add: mockDependencies_def serviceUnavailable_def)
  from a b show ?thesis by blast
qed

text \<open>
  A test request that lists \<open>throw_error\<close>: the error of the candidate matcher is thrown
  again inside the \<open>try\<close> block, the measure analyzer is never called, and the result is
  the one of a failed pipeline, without ballot measures and without top policies.
\<close>

theorem matcher_failure_counterexample:
  "priorityMapper (mockDependencies\<lparr>candidateMatcher := \<lambda>a m z. Inl serviceUnavailable\<rparr>)
       [''test'', ''throw_error''] = Inr mockAnalysis
   \<and> candidateMatcher (mockDependencies\<lparr>candidateMatcher := \<lambda>a m z. Inl serviceUnavailable\<rparr>)
       mockAnalysis Current ''94110'' = Inl serviceUnavailable
   \<and> ballotMeasureAnalyzer (mockDependencies\<lparr>candidateMatcher := \<lambda>a m z. Inl serviceUnavailable\<rparr>)
       mockAnalysis ''94110'' Current = Inr [mockMeasureMatch]
   \<and> fst (generateRecommendations
            (mockDependencies\<lparr>candidateMatcher := \<lambda>a m z. Inl serviceUnavailable\<rparr>)
            \<lparr> priorities = [''test'', ''throw_error''], zipCode = ''94110'', mode = Current \<rparr>
            newService)
       = Inr \<lparr> candidates = [], ballotMeasures = [],
               policyRecommendations =
                 \<lparr> topPolicies = [],
                   policyExplanation = ''Unable to generate recommendations due to an error.'' \<rparr>,
               error = Some ''Service unavailable'' \<rparr>"
proof -
  have t: "isTestRequest \<lparr> priorities = [''test'', ''throw_error''], zipCode = ''94110'', mode = Current \<rparr>"
    by code_simp
  then show ?thesis
    by (simp add: generateRecommendations_eq tryBlock_def Let_def catchBlock_def
        mockDependencies_def serviceUnavailable_def)
qed

text \<open>
  What the result says of a failure of the measure analyzer: its \<open>catch\<close> block keeps no
  error, so when the candidate matcher has returned, the \<open>error\<close> field stays unset.
\<close>

lemma measure_failure_sets_no_error:
  assumes "isTestRequest request \<or> cache st (fst (generateCacheKey request)) = None"
    and "priorityMapper deps
           (if isTestRequest request then priorities request else sort (priorities request))
         = Inr analysis"
    and "candidateMatcher deps analysis (mode request) (zipCode request) = Inr cs"
    and "ballotMeasureAnalyzer deps analysis (zipCode request) (mode request) = Inl err"
  shows "\<exists>r. fst (generateRecommendations deps request st) = Inr r \<and> error r = None"
proof (cases "isTestRequest request")
  case True
  with assms show ?thesis
    by (auto simp: generateRecommendations_eq tryBlock_def afterCandidates_eq Let_def
        catchBlock_def compileResult_def)
next
  case False
  with assms show ?thesis
    by (auto simp: generateRecommendations_eq tryBlock_def afterCandidates_eq Let_def
        catchBlock_def compileResult_def)
qed

lemma generateCacheKey_sorted_request:
  "fst (generateCacheKey (request\<lparr>priorities := sort (priorities request)\<rparr>))
     = fst (generateCacheKey request)"
  by (simp add: generateCacheKey_def Let_def sort_key_id_if_sorted)

lemma tryBlock_calls:
  "\<exists>rest. calls (snd (snd (tryBlock deps t r st))) = calls st @ AnalyzePriorities # rest
      \<and> (rest = [] \<or> rest = [FindMatchingCandidates]
          \<or> rest = [FindMatchingCandidates, FindRelevantMeasures])"
  by (auto simp: tryBlock_def afterCandidates_eq Let_def logCall_def split: sum.splits)

lemma tryBlock_cache_dom:
  "dom (cache (snd (snd (tryBlock deps t r st))))
     \<subseteq> insert (fst (generateCacheKey r)) (dom (cache st))"
  by (auto simp: tryBlock_def afterCandidates_eq Let_def logCall_def split: sum.splits if_splits)

text \<open>A request that is not served from the cache calls the priority mapper.\<close>

lemma generateRecommendations_miss_calls:
  assumes "isTestRequest r \<or> cache st (fst (generateCacheKey r)) = None"
  shows "\<exists>rest. calls (snd (snd (generateRecommendations deps r st)))
           = calls st @ AnalyzePriorities # rest"
proof (cases "isTestRequest r")
  case True
  then show ?thesis
    using tryBlock_calls [of deps True r st] by (auto simp: generateRecommendations_eq)
next
  case False
  with assms show ?thesis
    using tryBlock_calls [of deps False "r\<lparr>priorities := sort (priorities r)\<rparr>" st]
    by (auto simp: generateRecommendations_eq)
qed

lemma generateRecommendations_cache_dom:
  "dom (cache (snd (snd (generateRecommendations deps r st))))
     \<subseteq> insert (fst (generateCacheKey r)) (dom (cache st))"
proof (cases "isTestRequest r")
  case True
  then show ?thesis
    using tryBlock_cache_dom [of deps True r st] by (auto simp: generateRecommendations_eq)
next
  case False
  then show ?thesis
    using tryBlock_cache_dom [of deps False "r\<lparr>priorities := sort (priorities r)\<rparr>" st]
    by (auto simp: generateRecommendations_eq generateCacheKey_sorted_request
        split: option.splits)
qed

text \<open>A first call whose mapper returns leaves its result in the cache, under the key of
  the request, after one call to each service.\<close>

lemma generateRecommendations_fresh:
  assumes "\<not> isTestRequest r" and "priorityMapper deps (sort (priorities r)) = Inr a"
  shows "\<exists>res. generateRecommendations deps r newService =
           (Inr res, r\<lparr>priorities := sort (priorities r)\<rparr>,
            \<lparr> cache = [fst (generateCacheKey r) \<mapsto> res],
              calls = [AnalyzePriorities, FindMatchingCandidates, FindRelevantMeasures] \<rparr>)"
  using assms
  by (auto simp: generateRecommendations_eq newService_def tryBlock_def afterCandidates_eq
      Let_def logCall_def catchBlock_def generateCacheKey_sorted_request sort_key_id_if_sorted
      split: sum.splits)

text \<open>
  Claim C3, as the code has it. On a new service, take two calls in a row. If neither
  request is a test request, the priority mapper returns on the first one, and the two
  requests have the same priorities up to order (as multisets), the same location and the
  same mode, then the second call is answered from the cache: it calls no service and
  returns the result of the first call, so each service has been called at most once in
  all. If the two requests differ in the multiset of priorities, the location or the mode,
  the second call is not answered from the cache and calls the priority mapper again.
\<close>

theorem cache_hit_iff_same_request:
  "(let first = generateRecommendations deps r1 newService;
        second = generateRecommendations deps r2 (snd (snd first))
    in (\<not> isTestRequest r1 \<and> \<not> isTestRequest r2
        \<and> (\<exists>a. priorityMapper deps (sort (priorities r1)) = Inr a)
        \<and> mset (priorities r1) = mset (priorities r2)
        \<and> zipCode r1 = zipCode r2 \<and> mode r1 = mode r2
        \<longrightarrow> calls (snd (snd second)) = calls (snd (snd first))
            \<and> fst second = fst first
            \<and> (\<forall>c. count_list (calls (snd (snd second))) c \<le> 1))
     \<and> (mset (priorities r1) \<noteq> mset (priorities r2)
          \<or> zipCode r1 \<noteq> zipCode r2 \<or> mode r1 \<noteq> mode r2
        \<longrightarrow> (\<exists>rest. calls (snd (snd second))
                        = calls (snd (snd first)) @ AnalyzePriorities # rest)))"
proof -
  let ?first = "generateRecommendations deps r1 newService"
  let ?second = "generateRecommendations deps r2 (snd (snd ?first))"
  have hit: "calls (snd (snd ?second)) = calls (snd (snd ?first))
            \<and> fst ?second = fst ?first
            \<and> (\<forall>c. count_list (calls (snd (snd ?second))) c \<le> 1)"
    if nt: "\<not> isTestRequest r1" "\<not> isTestRequest r2"
      and ok: "priorityMapper deps (sort (priorities r1)) = Inr a"
      and same: "mset (priorities r1) = mset (priorities r2)" "zipCode r1 = zipCode r2"
        "mode r1 = mode r2"
    for a
  proof -
    from generateRecommendations_fresh [OF nt(1) ok] obtain res where
      first: "?first = (Inr res, r1\<lparr>priorities := sort (priorities r1)\<rparr>,
            \<lparr> cache = [fst (generateCacheKey r1) \<mapsto> res],
              calls = [AnalyzePriorities, FindMatchingCandidates, FindRelevantMeasures] \<rparr>)"
      by blast
    from same have key: "fst (generateCacheKey r2) = fst (generateCacheKey r1)"
      by (simp add: generateCacheKey_eq_iff)
    with nt(2) first have second: "?second = (Inr res, r2\<lparr>priorities := sort (priorities r2)\<rparr>,
        snd (snd ?first))"
      by (simp add: generateRecommendations_eq)
    have "count_list [AnalyzePriorities, FindMatchingCandidates, FindRelevantMeasures] c \<le> 1"
      for c by (cases c) simp_all
    with first second show ?thesis by simp
  qed
  have miss: "\<exists>rest. calls (snd (snd ?second))
                        = calls (snd (snd ?first)) @ AnalyzePriorities # rest"
    if diff: "mset (priorities r1) \<noteq> mset (priorities r2)
          \<or> zipCode r1 \<noteq> zipCode r2 \<or> mode r1 \<noteq> mode r2"
  proof -
    from diff have "fst (generateCacheKey r2) \<noteq> fst (generateCacheKey r1)"
      by (auto simp: generateCacheKey_eq_iff)
    moreover have "dom (cache (snd (snd ?first))) \<subseteq> {fst (generateCacheKey r1)}"
      using generateRecommendations_cache_dom [of deps r1 newService]
      by (simp add: newService_def)
    ultimately have "cache (snd (snd ?first)) (fst (generateCacheKey r2)) = None"
      by blast
    then show ?thesis by (intro generateRecommendations_miss_calls) simp
  qed
  from hit miss show ?thesis unfolding Let_def by blast
qed

theorem cache_hit_iff_same_request_witness:
  "(let first = generateRecommendations mockDependencies
                  \<lparr> priorities = [''Economy'', ''Education''], zipCode = ''94110'', mode = Current \<rparr>
                  newService;
        second = generateRecommendations mockDependencies
                  \<lparr> priorities = [''Education'', ''Economy''], zipCode = ''94110'', mode = Current \<rparr>
                  (snd (snd first));
        third = generateRecommendations mockDependencies
                  \<lparr> priorities = [''Economy'', ''Education''], zipCode = ''94110'', mode = Demo \<rparr>
                  (snd (snd first))
    in calls (snd (snd second)) = calls (snd (snd first))
       \<and> fst second = fst first
       \<and> count_list (calls (snd (snd second))) AnalyzePriorities \<le> 1
       \<and> (\<exists>rest. calls (snd (snd third)) = calls (snd (snd first)) @ AnalyzePriorities # rest))"
proof -
  let ?r1 = "\<lparr> priorities = [''Economy'', ''Education''], zipCode = ''94110'', mode = Current \<rparr>"
  let ?r2 = "\<lparr> priorities = [''Education'', ''Economy''], zipCode = ''94110'', mode = Current \<rparr>"
  let ?r3 = "\<lparr> priorities = [''Economy'', ''Education''], zipCode = ''94110'', mode = Demo \<rparr>"
  have nt: "\<not> isTestRequest ?r1" "\<not> isTestRequest ?r2" by code_simp+
  have ok: "\<exists>a. priorityMapper mockDependencies (sort (priorities ?r1)) = Inr a"
    by (simp add: mockDependencies_def)
  have same: "mset (priorities ?r1) = mset (priorities ?r2)" "zipCode ?r1 = zipCode ?r2"
    "mode ?r1 = mode ?r2" by simp_all
  from cache_hit_iff_same_request [of mockDependencies ?r1 ?r2, unfolded Let_def] nt ok same
  have a: "calls (snd (snd (generateRecommendations mockDependencies ?r2
                (snd (snd (generateRecommendations mockDependencies ?r1 newService))))))
             = calls (snd (snd (generateRecommendations mockDependencies ?r1 newService)))
         \<and> fst (generateRecommendations mockDependencies ?r2
                (snd (snd (generateRecommendations mockDependencies ?r1 newService))))
             = fst (generateRecommendations mockDependencies ?r1 newService)
         \<and> count_list (calls (snd (snd (generateRecommendations mockDependencies ?r2
                (snd (snd (generateRecommendations mockDependencies ?r1 newService))))))) AnalyzePriorities \<le> 1"
    by blast
  have diff: "mode ?r1 \<noteq> mode ?r3" by simp
  from cache_hit_iff_same_request [of mockDependencies ?r1 ?r3, unfolded Let_def] diff
  have b: "\<exists>rest. calls (snd (snd (generateRecommendations mockDependencies ?r3
                (snd (snd (generateRecommendations mockDependencies ?r1 newService))))))
             = calls (snd (snd (generateRecommendations mockDependencies ?r1 newService)))
                 @ AnalyzePriorities # rest"
    by blast
  from a b show ?thesis unfolding Let_def by blast
qed

text \<open>
  Test requests bypass the cache: the same request twice calls every service twice.
\<close>

theorem cache_bypass_counterexample:
  "(let request = \<lparr> priorities = [''test''], zipCode = ''94110'', mode = Current \<rparr>;
        first = generateRecommendations mockDependencies request newService;
        second = generateRecommendations mockDependencies (fst (snd first)) (snd (snd first))
    in fst (snd first) = request
       \<and> calls (snd (snd second))
           = [AnalyzePriorities, FindMatchingCandidates, FindRelevantMeasures,
              AnalyzePriorities, FindMatchingCandidates, FindRelevantMeasures]
       \<and> count_list (calls (snd (snd second))) AnalyzePriorities = 2)"
proof -
  have t: "isTestRequest \<lparr> priorities = [''test''], zipCode = ''94110'', mode = Current \<rparr>"
    by code_simp
  then show ?thesis
    by (simp add: generateRecommendations_eq tryBlock_def afterCandidates_eq Let_def
        catchBlock_def logCall_def mockDependencies_def newService_def)
qed

section \<open>Properties of the candidate matcher\<close>

lemma scorePosition_fold:
  "foldl (\<lambda>(alignmentScore', matched) priority.
              if positionMatches p priority
              then (alignmentScore' + 0.2 * strength p, setAdd priority matched)
              else (alignmentScore', matched)) (s, ms) ups
   = (s + sum_list (map (\<lambda>q. 0.2 * strength p) (filter (positionMatches p) ups)),
      foldl (\<lambda>matched q. if positionMatches p q then setAdd q matched else matched) ms ups)"
  by (induction ups arbitrary: s ms) (simp_all add: algebra_simps)

lemma scorePosition_eq:
  "scorePosition ups (s, ms) p
   = (s + sum_list (map (\<lambda>q. 0.2 * strength p) (filter (positionMatches p) ups)),
      foldl (\<lambda>matched q. if positionMatches p q then setAdd q matched else matched) ms ups)"
  unfolding scorePosition_def by (rule scorePosition_fold)

lemma setAdd_fold_set:
  "set (foldl (\<lambda>matched q. if P q then setAdd q matched else matched) ms ups)
   = set ms \<union> {q \<in> set ups. P q}"
  by (induction ups arbitrary: ms) (auto simp: setAdd_def)

lemma product_Cons_filter:
  "filter (\<lambda>(p, q). P p q) (List.product (p # ps) ups)
   = map (Pair p) (filter (P p) ups) @ filter (\<lambda>(p, q). P p q) (List.product ps ups)"
  by (simp add: filter_map comp_def)

lemma positions_fold_score:
  "fst (foldl (scorePosition ups) (s, ms) ps)
   = s + sum_list (map (\<lambda>(p, q). 0.2 * strength p)
                    (filter (\<lambda>(p, q). positionMatches p q) (List.product ps ups)))"
proof (induction ps arbitrary: s ms)
  case Nil
  then show ?case by simp
next
  case (Cons p ps)
  show ?case
    by (simp only: foldl_Cons scorePosition_eq Cons.IH product_Cons_filter)
       (simp add: comp_def algebra_simps)
qed

lemma positions_fold_matched:
  "set (snd (foldl (scorePosition ups) (s, ms) ps))
   = set ms \<union> {q \<in> set ups. \<exists>p\<in>set ps. positionMatches p q}"
proof (induction ps arbitrary: s ms)
  case Nil
  then show ?case by simp
next
  case (Cons p ps)
  show ?case
    by (simp only: foldl_Cons scorePosition_eq Cons.IH setAdd_fold_set) auto
qed

lemma matchCandidate_candidate [simp]: "candidate (matchCandidate ups c) = c"
  by (simp add: matchCandidate_def Let_def split: prod.splits)

lemma matchCandidate_score:
  "alignmentScore (matchCandidate ups c) =
     (if includesStr (toLowerCase (join '' '' ups)) ''extremely specific'' \<or> ups = [] then 0.3
      else if includesStr (toLowerCase (join '' '' ups)) ''climate'' \<and> candidateName c = ''Sam Johnson''
        then 0.9
      else if includesStr (toLowerCase (join '' '' ups)) ''tax'' \<and> candidateName c = ''John Doe''
        then 0.85
      else if includesStr (toLowerCase (join '' '' ups)) ''healthcare'' \<and> candidateName c = ''Jane Smith''
        then 0.8
      else matchingRuleScore ups c)"
proof -
  have "fst (foldl (scorePosition ups) (0, []) (positions c))
      = sum_list (map (\<lambda>(p, q). 0.2 * strength p)
                    (filter (\<lambda>(p, q). positionMatches p q) (List.product (positions c) ups)))"
    using positions_fold_score [of ups 0 "[]" "positions c"] by simp
  moreover obtain s ms where f: "foldl (scorePosition ups) (0, []) (positions c) = (s, ms)"
    by (cases "foldl (scorePosition ups) (0, []) (positions c)")
  ultimately have "matchingRuleScore ups c = min 1 s"
    by (simp add: matchingRuleScore_def)
  with f show ?thesis
    by (simp add: matchCandidate_def Let_def)
qed

lemma matchCandidate_matched:
  assumes "position \<in> set (positions c)" "priority \<in> set ups" "positionMatches position priority"
  shows "priority \<in> set (matchedPriorities (matchCandidate ups c))"
proof -
  obtain s ms where f: "foldl (scorePosition ups) (0, []) (positions c) = (s, ms)"
    by (cases "foldl (scorePosition ups) (0, []) (positions c)")
  from assms have "priority \<in> set (snd (foldl (scorePosition ups) (0, []) (positions c)))"
    unfolding positions_fold_matched by auto
  with f have "priority \<in> set ms" by simp
  with f show ?thesis
    by (auto simp: matchCandidate_def Let_def)
qed

text \<open>
  Claim C9, as the code has it. Every entry of \<open>findMatchingCandidates\<close> is for a candidate of
  the roster, and its \<open>alignmentScore\<close> is the sum, over every pair of a position and a
  mapped priority whose lower-cased issue label and original text contain one another, of
  0.2 times the strength of the position, clamped to 1, unless a special case overrides
  it: 0.3 when the joined priorities contain \<open>extremely specific\<close> or there is no mapped
  priority; otherwise 0.9 for Sam Johnson when they contain \<open>climate\<close>, 0.85 for John Doe
  when they contain \<open>tax\<close>, 0.8 for Jane Smith when they contain \<open>healthcare\<close>. Every
  priority that matches a position is in \<open>matchedPriorities\<close>.
\<close>

theorem findMatchingCandidates_alignment:
  "\<forall>match\<in>set (findMatchingCandidates analysis m z).
     candidate match \<in> set createMockCandidates
     \<and> alignmentScore match =
         (let ups = map userPriority (mappedPriorities analysis);
              keywords = toLowerCase (join '' '' ups)
          in if includesStr keywords ''extremely specific'' \<or> ups = [] then 0.3
             else if includesStr keywords ''climate''
                     \<and> candidateName (candidate match) = ''Sam Johnson'' then 0.9
             else if includesStr keywords ''tax''
                     \<and> candidateName (candidate match) = ''John Doe'' then 0.85
             else if includesStr keywords ''healthcare''
                     \<and> candidateName (candidate match) = ''Jane Smith'' then 0.8
             else matchingRuleScore ups (candidate match))
     \<and> (\<forall>position\<in>set (positions (candidate match)).
          \<forall>priority\<in>set (map userPriority (mappedPriorities analysis)).
            positionMatches position priority \<longrightarrow> priority \<in> set (matchedPriorities match))"
proof
  fix match
  let ?ups = "map userPriority (mappedPriorities analysis)"
  assume "match \<in> set (findMatchingCandidates analysis m z)"
  then obtain c where c: "c \<in> set createMockCandidates" and m: "match = matchCandidate ?ups c"
    by (auto simp: findMatchingCandidates_def Let_def)
  show "candidate match \<in> set createMockCandidates
     \<and> alignmentScore match =
         (let ups = map userPriority (mappedPriorities analysis);
              keywords = toLowerCase (join '' '' ups)
          in if includesStr keywords ''extremely specific'' \<or> ups = [] then 0.3
             else if includesStr keywords ''climate''
                     \<and> candidateName (candidate match) = ''Sam Johnson'' then 0.9
             else if includesStr keywords ''tax''
                     \<and> candidateName (candidate match) = ''John Doe'' then 0.85
             else if includesStr keywords ''healthcare''
                     \<and> candidateName (candidate match) = ''Jane Smith'' then 0.8
             else matchingRuleScore ups (candidate match))
     \<and> (\<forall>position\<in>set (positions (candidate match)).
          \<forall>priority\<in>set (map userPriority (mappedPriorities analysis)).
            positionMatches position priority \<longrightarrow> priority \<in> set (matchedPriorities match))"
    unfolding m Let_def
    using c matchCandidate_score [of ?ups c] matchCandidate_matched [of _ c _ ?ups]
    by (simp del: set_map)
qed


theorem findMatchingCandidates_alignment_witness:
  "map (candidateName \<circ> candidate)
       (findMatchingCandidates educationFundingAnalysis Current ''94110'')
     = [''Sam Johnson'', ''Jane Smith'', ''John Doe'']
   \<and> map alignmentScore (findMatchingCandidates educationFundingAnalysis Current ''94110'')
     = map (matchingRuleScore [''Education funding''] \<circ> candidate)
         (findMatchingCandidates educationFundingAnalysis Current ''94110'')
   \<and> map alignmentScore (findMatchingCandidates educationFundingAnalysis Current ''94110'')
     = [0.16, 0, 0]"
proof -
  have names: "map (candidateName \<circ> candidate)
       (findMatchingCandidates educationFundingAnalysis Current ''94110'')
     = [''Sam Johnson'', ''Jane Smith'', ''John Doe'']"
    by code_simp
  have kw: "\<not> includesStr (toLowerCase (join '' '' [''Education funding''])) ''extremely specific''"
    "\<not> includesStr (toLowerCase (join '' '' [''Education funding''])) ''climate''"
    "\<not> includesStr (toLowerCase (join '' '' [''Education funding''])) ''tax''"
    "\<not> includesStr (toLowerCase (join '' '' [''Education funding''])) ''healthcare''"
    by code_simp+
  have ups: "map userPriority (mappedPriorities educationFundingAnalysis) = [''Education funding'']"
    by (simp add: educationFundingAnalysis_def)
  have rule: "\<forall>match\<in>set (findMatchingCandidates educationFundingAnalysis Current ''94110'').
         alignmentScore match = matchingRuleScore [''Education funding''] (candidate match)"
    using findMatchingCandidates_alignment [of educationFundingAnalysis Current "''94110''"]
    unfolding Let_def ups using kw by simp
  have eq: "map alignmentScore (findMatchingCandidates educationFundingAnalysis Current ''94110'')
       = map (matchingRuleScore [''Education funding''] \<circ> candidate)
           (findMatchingCandidates educationFundingAnalysis Current ''94110'')"
    using rule by simp
  also have "\<dots> = [0.16, 0, 0]" by code_simp
  finally show ?thesis using names eq by simp
qed

text \<open>
  The single priority \<open>Tax reform\<close>: the matching rule gives John Doe 0.18, the special
  case for \<open>tax\<close> gives him 0.85.
\<close>

theorem findMatchingCandidates_override_counterexample:
  "map (candidateName \<circ> candidate) (findMatchingCandidates taxReformAnalysis Current ''94110'')
     = [''John Doe'', ''Sam Johnson'', ''Jane Smith'']
   \<and> map alignmentScore (findMatchingCandidates taxReformAnalysis Current ''94110'')
     = [0.85, 0.12, 0.1]
   \<and> map (matchingRuleScore [''Tax reform''] \<circ> candidate)
       (findMatchingCandidates taxReformAnalysis Current ''94110'')
     = [0.18, 0.12, 0.1]"
  by code_simp

section \<open>Properties of the measure matcher\<close>

lemma mapThrowing_Inr:
  "\<forall>x\<in>set xs. f x = Inr (g x) \<Longrightarrow> mapThrowing f xs = Inr (map g xs)"
  by (induction xs) simp_all

lemma matchMeasure_Inr:
  assumes "categories m \<noteq> []"
  shows "\<exists>r. matchMeasure a ups nl z m = Inr r \<and> ballotMeasure r = m
             \<and> isFallback r = (nl \<or> z = ''00000'')"
  using assms
  by (cases "categories m") (simp_all add: matchMeasure_def Let_def split: prod.splits)

lemma relevantMeasuresOf_location:
  assumes cats: "\<forall>m\<in>set roster. categories m \<noteq> []"
  shows "\<exists>result. relevantMeasuresOf roster a z md = Inr result
      \<and> mset (map ballotMeasure result)
          = mset (if filter (\<lambda>m. z \<in> set (applicableLocations m)) roster = [] then roster
                  else filter (\<lambda>m. z \<in> set (applicableLocations m)) roster)
      \<and> (\<forall>r\<in>set result.
            isFallback r = (filter (\<lambda>m. z \<in> set (applicableLocations m)) roster = []
                            \<or> z = ''00000''))"
proof -
  let ?ups = "map userPriority (mappedPriorities a)"
  let ?loc = "filter (\<lambda>m. z \<in> set (applicableLocations m)) roster"
  let ?ms = "if ?loc = [] then roster else ?loc"
  let ?f = "matchMeasure a ?ups (?loc = []) z"
  let ?g = "\<lambda>m. projr (?f m)"
  have sub: "set ?ms \<subseteq> set roster" by auto
  have each: "?f m = Inr (?g m) \<and> ballotMeasure (?g m) = m
              \<and> isFallback (?g m) = (?loc = [] \<or> z = ''00000'')"
    if "m \<in> set ?ms" for m
  proof -
    from that sub cats have "categories m \<noteq> []" by blast
    from matchMeasure_Inr [OF this, of a ?ups "?loc = []" z] show ?thesis by auto
  qed
  then have "mapThrowing ?f ?ms = Inr (map ?g ?ms)"
    by (intro mapThrowing_Inr) blast
  then have res: "relevantMeasuresOf roster a z md
      = Inr (sort_key (\<lambda>match. - relevanceScore match) (map ?g ?ms))"
    by (cases "?loc = []") (simp_all add: relevantMeasuresOf_def Let_def)
  have "map ballotMeasure (map ?g ?ms) = ?ms"
    using each by (simp add: map_idI)
  then have "mset (map ballotMeasure (sort_key (\<lambda>match. - relevanceScore match) (map ?g ?ms)))
      = mset ?ms"
    using mset_map [of ballotMeasure "sort_key (\<lambda>match. - relevanceScore match) (map ?g ?ms)"]
      mset_map [of ballotMeasure "map ?g ?ms"]
    by (simp only: mset_sort)
  moreover have "\<forall>r\<in>set (sort_key (\<lambda>match. - relevanceScore match) (map ?g ?ms)).
      isFallback r = (?loc = [] \<or> z = ''00000'')"
    using each by auto
  ultimately show ?thesis using res by blast
qed

lemma createMockBallotMeasures_facts:
  "\<forall>m\<in>set createMockBallotMeasures. categories m \<noteq> [] \<and> ''00000'' \<notin> set (applicableLocations m)"
  by (simp add: createMockBallotMeasures_def)

text \<open>
  Claim C6. \<open>findRelevantMeasures\<close> returns, for every analysis, location and mode. For a
  location that is in no measure's list of applicable locations (compared as strings) it
  returns the whole roster, every entry with \<open>isFallback = true\<close>; for a location that is
  in some measure's list it returns exactly the measures whose list contains it, every
  entry with \<open>isFallback = false\<close>. The result is never empty.
\<close>

theorem findRelevantMeasures_location_fallback:
  "\<exists>result. findRelevantMeasures analysis location m = Inr result
     \<and> result \<noteq> []
     \<and> (if \<exists>measure'\<in>set createMockBallotMeasures. location \<in> set (applicableLocations measure')
        then mset (map ballotMeasure result)
               = mset (filter (\<lambda>measure'. location \<in> set (applicableLocations measure'))
                         createMockBallotMeasures)
             \<and> (\<forall>r\<in>set result. \<not> isFallback r)
        else mset (map ballotMeasure result) = mset createMockBallotMeasures
             \<and> (\<forall>r\<in>set result. isFallback r))"
proof -
  let ?loc = "filter (\<lambda>m. location \<in> set (applicableLocations m)) createMockBallotMeasures"
  from createMockBallotMeasures_facts
  have cats: "\<forall>m\<in>set createMockBallotMeasures. categories m \<noteq> []" by blast
  from relevantMeasuresOf_location [OF cats, of analysis location m]
  obtain result where
    res: "findRelevantMeasures analysis location m = Inr result"
    and ms: "mset (map ballotMeasure result)
          = mset (if ?loc = [] then createMockBallotMeasures else ?loc)"
    and fb: "\<forall>r\<in>set result. isFallback r = (?loc = [] \<or> location = ''00000'')"
    unfolding findRelevantMeasures_def by blast
  have iff: "(\<exists>measure'\<in>set createMockBallotMeasures. location \<in> set (applicableLocations measure'))
      \<longleftrightarrow> ?loc \<noteq> []"
    by (simp add: filter_empty_conv)
  have zero: "?loc \<noteq> [] \<Longrightarrow> location \<noteq> ''00000''"
    using createMockBallotMeasures_facts iff by blast
  have "createMockBallotMeasures \<noteq> []" by (simp add: createMockBallotMeasures_def)
  with ms have "mset (map ballotMeasure result) \<noteq> {#}" by (auto split: if_splits)
  then have ne: "result \<noteq> []" by auto
  show ?thesis
  proof (cases "?loc = []")
    case True
    with res ms fb ne iff show ?thesis by auto
  next
    case False
    with zero have "location \<noteq> ''00000''" by simp
    with False res ms fb ne iff show ?thesis by auto
  qed
qed

theorem findRelevantMeasures_location_fallback_witness:
  "(\<exists>result. findRelevantMeasures mockAnalysis ''99999'' Current = Inr result
      \<and> length result = 3 \<and> (\<forall>r\<in>set result. isFallback r))
   \<and> (\<exists>result. findRelevantMeasures mockAnalysis ''94107'' Current = Inr result
      \<and> map (measureId \<circ> ballotMeasure) result = [''measure-1'']
      \<and> (\<forall>r\<in>set result. \<not> isFallback r))"
proof -
  have no: "\<not> (\<exists>measure'\<in>set createMockBallotMeasures. ''99999'' \<in> set (applicableLocations measure'))"
    by (simp add: createMockBallotMeasures_def)
  have yes: "\<exists>measure'\<in>set createMockBallotMeasures. ''94107'' \<in> set (applicableLocations measure')"
    by (simp add: createMockBallotMeasures_def)
  have f: "filter (\<lambda>measure'. ''94107'' \<in> set (applicableLocations measure')) createMockBallotMeasures
      = [hd createMockBallotMeasures]"
    by (simp add: createMockBallotMeasures_def)
  from findRelevantMeasures_location_fallback [of mockAnalysis "''99999''" Current] no
  obtain r1 where r1: "findRelevantMeasures mockAnalysis ''99999'' Current = Inr r1"
    "mset (map ballotMeasure r1) = mset createMockBallotMeasures" "\<forall>r\<in>set r1. isFallback r"
    by auto
  from r1(2) have "size (mset (map ballotMeasure r1)) = size (mset createMockBallotMeasures)"
    by simp
  then have l1: "length r1 = 3" by (simp add: createMockBallotMeasures_def)
  from findRelevantMeasures_location_fallback [of mockAnalysis "''94107''" Current] yes f
  obtain r2 where r2: "findRelevantMeasures mockAnalysis ''94107'' Current = Inr r2"
    "mset (map ballotMeasure r2) = mset [hd createMockBallotMeasures]" "\<forall>r\<in>set r2. \<not> isFallback r"
    by auto
  from r2(2) have "map ballotMeasure r2 = [hd createMockBallotMeasures]"
    by (metis mset_single_iff_right mset.simps(1) mset.simps(2))
  then have m2: "map (measureId \<circ> ballotMeasure) r2 = [''measure-1'']"
    by (auto simp: createMockBallotMeasures_def)
  from r1(1,3) l1 have a: "\<exists>result. findRelevantMeasures mockAnalysis ''99999'' Current = Inr result
      \<and> length result = 3 \<and> (\<forall>r\<in>set result. isFallback r)"
    by (intro exI [of _ r1]) simp
  from r2(1,3) m2 have b: "\<exists>result. findRelevantMeasures mockAnalysis ''94107'' Current = Inr result
      \<and> map (measureId \<circ> ballotMeasure) result = [''measure-1'']
      \<and> (\<forall>r\<in>set result. \<not> isFallback r)"
    by (intro exI [of _ r2]) simp
  from a b show ?thesis by (rule conjI)
qed

section \<open>Properties of the priority mapper\<close>

lemma firstExtremePattern_find:
  "firstExtremePattern patterns priority = find (\<lambda>e. patternTest e priority) patterns"
  by (induction patterns) simp_all

lemma classifyPriority_step:
  "classifyPriority (flagged, valid) p =
     (if trim p = [] then (flagged, valid)
      else case firstExtremePattern EXTREME_PRIORITY_PATTERNS p of
             Some e \<Rightarrow> (flagged @ [\<lparr> flaggedUserPriority = p, flagType = patternFlagType e,
                                      flagReason = patternReason e \<rparr>], valid)
           | None \<Rightarrow> (flagged, valid @ [p]))"
  by (simp add: classifyPriority_def)

lemma classifyPriority_fold:
  "foldl classifyPriority (flagged, valid) ps =
     (flagged @ map (\<lambda>p. \<lparr> flaggedUserPriority = p,
                           flagType = patternFlagType
                             (the (firstExtremePattern EXTREME_PRIORITY_PATTERNS p)),
                           flagReason = patternReason
                             (the (firstExtremePattern EXTREME_PRIORITY_PATTERNS p)) \<rparr>)
                  (filter (\<lambda>p. trim p \<noteq> []
                               \<and> firstExtremePattern EXTREME_PRIORITY_PATTERNS p \<noteq> None) ps),
      valid @ filter (\<lambda>p. trim p \<noteq> []
                          \<and> firstExtremePattern EXTREME_PRIORITY_PATTERNS p = None) ps)"
proof (induction ps arbitrary: flagged valid)
  case Nil
  then show ?case by simp
next
  case (Cons p ps)
  show ?case
    by (cases "firstExtremePattern EXTREME_PRIORITY_PATTERNS p")
       (simp_all add: classifyPriority_step Cons.IH)
qed

lemma analyzePriorities_mapped:
  "mappedPriorities (analyzePriorities ps) =
     map mapValidPriority
       (filter (\<lambda>p. trim p \<noteq> [] \<and> firstExtremePattern EXTREME_PRIORITY_PATTERNS p = None) ps)"
  by (simp add: analyzePriorities_def classifyPriority_fold Let_def)

lemma analyzePriorities_flagged:
  "flaggedPriorities (analyzePriorities ps) =
     map (\<lambda>p. \<lparr> flaggedUserPriority = p,
                 flagType = patternFlagType
                   (the (firstExtremePattern EXTREME_PRIORITY_PATTERNS p)),
                 flagReason = patternReason
                   (the (firstExtremePattern EXTREME_PRIORITY_PATTERNS p)) \<rparr>)
       (filter (\<lambda>p. trim p \<noteq> [] \<and> firstExtremePattern EXTREME_PRIORITY_PATTERNS p \<noteq> None) ps)"
  by (simp add: analyzePriorities_def classifyPriority_fold Let_def)



lemma climate_change_found:
  "find (\<lambda>i. issueId i = ''climate_change'') MOCK_POLITICAL_ISSUES
     = Some (MOCK_POLITICAL_ISSUES ! 5)"
  by (simp add: MOCK_POLITICAL_ISSUES_def)

lemma specialCaseIssues_nonempty: "specialCaseIssues joined = Some issues \<Longrightarrow> issues \<noteq> []"
  by (auto simp: specialCaseIssues_def MOCK_POLITICAL_ISSUES_def split: if_splits)

lemma specialCaseIssues_subset:
  "specialCaseIssues joined = Some issues \<Longrightarrow> set issues \<subseteq> set MOCK_POLITICAL_ISSUES"
  by (auto simp: specialCaseIssues_def split: if_splits)

lemma findIssuesByKeywords_nonempty: "findIssuesByKeywords ks \<noteq> []"
  using specialCaseIssues_nonempty
  by (auto simp: findIssuesByKeywords_def Let_def split: option.splits)

lemma standardMatches_inner_subset:
  "set (foldl (\<lambda>results issue'. if P issue' \<and> issue' \<notin> set results
                                 then results @ [issue'] else results) results xs)
     \<subseteq> set results \<union> set xs"
proof (induction xs arbitrary: results)
  case Nil
  then show ?case by simp
next
  case (Cons a xs)
  let ?step = "if P a \<and> a \<notin> set results then results @ [a] else results"
  have "set ?step \<subseteq> set results \<union> {a}" by auto
  with Cons.IH [of ?step] show ?case by auto
qed

lemma standardMatches_outer_subset:
  "set (foldl (\<lambda>results keyword.
              let normalizedKeyword = trim (toLowerCase keyword) in
              foldl (\<lambda>results issue'.
                       if keywordMatchesIssue normalizedKeyword issue' \<and> issue' \<notin> set results
                       then results @ [issue'] else results)
                results MOCK_POLITICAL_ISSUES) results ks)
     \<subseteq> set results \<union> set MOCK_POLITICAL_ISSUES"
proof (induction ks arbitrary: results)
  case Nil
  then show ?case by simp
next
  case (Cons k ks)
  let ?inner = "foldl (\<lambda>results issue'.
                       if keywordMatchesIssue (trim (toLowerCase k)) issue' \<and> issue' \<notin> set results
                       then results @ [issue'] else results) results MOCK_POLITICAL_ISSUES"
  have "set ?inner \<subseteq> set results \<union> set MOCK_POLITICAL_ISSUES"
    by (rule standardMatches_inner_subset)
  with Cons.IH [of ?inner] show ?case by (auto simp: Let_def)
qed

lemma standardMatches_subset: "set (standardMatches ks) \<subseteq> set MOCK_POLITICAL_ISSUES"
  unfolding standardMatches_def using standardMatches_outer_subset [of "[]" ks] by simp

lemma fallbackIssue_member:
  "fallbackIssue words = Some i \<Longrightarrow> i \<in> set MOCK_POLITICAL_ISSUES"
  by (induction words) (auto split: if_splits option.splits simp: find_Some_iff)

lemma hd_mock_member: "hd MOCK_POLITICAL_ISSUES \<in> set MOCK_POLITICAL_ISSUES"
  by (simp add: MOCK_POLITICAL_ISSUES_def)

lemma findIssuesByKeywords_subset:
  "set (findIssuesByKeywords ks) \<subseteq> set MOCK_POLITICAL_ISSUES"
proof (cases "specialCaseIssues (toLowerCase (join '' '' ks))")
  case (Some issues)
  with specialCaseIssues_subset [OF Some] show ?thesis
    by (simp add: findIssuesByKeywords_def)
next
  case None
  then show ?thesis
    using standardMatches_subset [of ks] fallbackIssue_member hd_mock_member
    by (auto simp: findIssuesByKeywords_def Let_def split: option.splits if_splits)
qed

text \<open>When no special case applies and the keyword matching finds something, the helper
  returns what the matching found.\<close>

lemma findIssuesByKeywords_matched:
  "specialCaseIssues (toLowerCase (join '' '' ks)) = None \<Longrightarrow> standardMatches ks \<noteq> [] \<Longrightarrow>
   findIssuesByKeywords ks = standardMatches ks"
  by (simp add: findIssuesByKeywords_def Let_def)

lemma mock_issues_declare_nothing:
  "\<forall>i\<in>set MOCK_POLITICAL_ISSUES. policyApproaches i = None \<and> opposingIssues i = None"
  by (simp add: MOCK_POLITICAL_ISSUES_def)

text \<open>What the callback returns: the branch for an empty list of matching issues is never
  taken, because \<open>findIssuesByKeywords\<close> never returns an empty list.\<close>

lemma mapValidPriority_eq:
  "mapValidPriority priority =
     (if includesStr (toLowerCase priority) ''climate''
      then \<lparr> userPriority = priority,
             mappedIssues = [\<lparr> issue = MOCK_POLITICAL_ISSUES ! 5, confidence = 0.9,
                               matchedTerms = [''climate change'', ''climate''] \<rparr>] \<rparr>
      else \<lparr> userPriority = priority,
             mappedIssues = map (\<lambda>issue'. \<lparr> issue = issue', confidence = 0.8,
                                             matchedTerms = [priority] \<rparr>)
                              (findIssuesByKeywords [priority]) \<rparr>)"
  by (simp add: mapValidPriority_def Let_def climate_change_found findIssuesByKeywords_nonempty)

lemma mapValidPriority_userPriority [simp]: "userPriority (mapValidPriority p) = p"
  by (simp add: mapValidPriority_eq)

lemma mapValidPriority_issues_subset:
  "issue ` set (mappedIssues (mapValidPriority p)) \<subseteq> set MOCK_POLITICAL_ISSUES"
  using findIssuesByKeywords_subset [of "[p]"]
  by (auto simp: mapValidPriority_eq MOCK_POLITICAL_ISSUES_def)

lemma approachConflicts_none:
  "\<forall>i\<in>snd ` set objs. policyApproaches i = None \<Longrightarrow> approachConflicts objs = []"
  by (auto simp: approachConflicts_def)

lemma opposingConflicts_none:
  "\<forall>i\<in>set xs. opposingIssues i = None \<Longrightarrow> opposingConflicts xs = []"
  by (simp add: opposingConflicts_def)

text \<open>On issues that declare neither policy approaches nor opposing issues, and so on the
  issues of the mock taxonomy, \<open>findPolicyConflicts\<close> reports the direct conflicts only.\<close>

lemma findPolicyConflicts_declaring_nothing:
  assumes "\<forall>i\<in>snd ` set objs. policyApproaches i = None \<and> opposingIssues i = None"
  shows "findPolicyConflicts table objs = directConflicts table (map snd objs)"
proof -
  from assms have "\<forall>i\<in>snd ` set objs. policyApproaches i = None" by simp
  then have "approachConflicts objs = []" by (rule approachConflicts_none)
  moreover from assms have "\<forall>i\<in>set (map snd objs). opposingIssues i = None" by simp
  then have "opposingConflicts (map snd objs) = []" by (rule opposingConflicts_none)
  ultimately show ?thesis by (simp add: findPolicyConflicts_def)
qed





subsection \<open>The mapper on some priorities\<close>

lemma valid_priorities_eval:
  "filter (\<lambda>p. trim p \<noteq> [] \<and> firstExtremePattern EXTREME_PRIORITY_PATTERNS p = None)
     [''cut taxes''] = [''cut taxes'']"
  "filter (\<lambda>p. trim p \<noteq> [] \<and> firstExtremePattern EXTREME_PRIORITY_PATTERNS p = None)
     [''xyz''] = [''xyz'']"
  "filter (\<lambda>p. trim p \<noteq> [] \<and> firstExtremePattern EXTREME_PRIORITY_PATTERNS p = None)
     [''Lower taxes and reduce spending'', ''Increase education funding'']
     = [''Lower taxes and reduce spending'', ''Increase education funding'']"
  by code_simp+

lemma not_climate_eval:
  "\<not> includesStr (toLowerCase ''cut taxes'') ''climate''"
  "\<not> includesStr (toLowerCase ''xyz'') ''climate''"
  "\<not> includesStr (toLowerCase ''Lower taxes and reduce spending'') ''climate''"
  "\<not> includesStr (toLowerCase ''Increase education funding'') ''climate''"
  by code_simp+

lemma findIssuesByKeywords_cut_taxes:
  "findIssuesByKeywords [''cut taxes''] = [MOCK_POLITICAL_ISSUES ! 0]"
  by code_simp

lemma findIssuesByKeywords_xyz:
  "findIssuesByKeywords [''xyz''] = [MOCK_POLITICAL_ISSUES ! 0]"
  by code_simp



lemma standardMatches_xyz: "standardMatches [''xyz''] = []"
  by code_simp

lemma specialCaseIssues_xyz: "specialCaseIssues (toLowerCase ''xyz'') = None"
  by code_simp

lemma standardMatches_cut_taxes: "standardMatches [''cut taxes''] = [MOCK_POLITICAL_ISSUES ! 0]"
  by code_simp

lemma specialCaseIssues_cut_taxes: "specialCaseIssues (toLowerCase ''cut taxes'') = None"
  by code_simp

lemma specified_cut_taxes:
  "specifiedConfidence ''cut taxes'' (MOCK_POLITICAL_ISSUES ! 0) = 5 / 9"
  by code_simp

lemma mapSinglePriority_cut_taxes:
  "map confidence (mappedIssues (mapSinglePriority MOCK_POLITICAL_ISSUES ''cut taxes'')) = [5 / 9]"
  by code_simp

lemma partition_eval:
  "filter (\<lambda>p. trim p \<noteq> [] \<and> firstMatchingPattern p = None)
     [''Return to the gold'' @ [CHR 0xA0] @ ''standard and abolish taxes'',
      '' '' @ [CHR 0xA0] @ '' '', ''Lower taxes'']
     = [''Lower taxes'']"
  "map (\<lambda>p. (p, map_option patternFlagType (firstMatchingPattern p)))
     (filter (\<lambda>p. trim p \<noteq> [] \<and> firstMatchingPattern p \<noteq> None)
        [''Return to the gold'' @ [CHR 0xA0] @ ''standard and abolish taxes'',
         '' '' @ [CHR 0xA0] @ '' '', ''Lower taxes''])
     = [(''Return to the gold'' @ [CHR 0xA0] @ ''standard and abolish taxes'', Some OutOfScope)]"
  by code_simp+

text \<open>The no-break space is white space: a priority made of it is dropped, it separates the
  words of a pattern, and \<open>trim\<close> removes it before the keyword matching.\<close>

lemma no_break_space_eval:
  "trim [CHR 0xA0] = []"
  "map flaggedUserPriority
     (flaggedPriorities (analyzePriorities [[CHR 0xA0], ''gold'' @ [CHR 0xA0] @ ''standard'']))
     = [''gold'' @ [CHR 0xA0] @ ''standard'']"
  "mappedPriorities (analyzePriorities [[CHR 0xA0], ''gold'' @ [CHR 0xA0] @ ''standard'']) = []"
  "map issueId (standardMatches [''equity'' @ [CHR 0xA0]]) = [''education_equity'', ''social_equity'']"
  "toLowerCase [CHR 0xC0, CHR 0xD7, CHR 0xDE, CHR 0xDF] = [CHR 0xE0, CHR 0xD7, CHR 0xFE, CHR 0xDF]"
  by (simp_all only: analyzePriorities_mapped analyzePriorities_flagged) code_simp+


lemma ids_eval:
  "issueId (MOCK_POLITICAL_ISSUES ! 0) = ''taxes''"
  by (simp add: MOCK_POLITICAL_ISSUES_def)

lemma mapped_cut_taxes:
  "mappedPriorities (analyzePriorities [''cut taxes''])
     = [\<lparr> userPriority = ''cut taxes'',
          mappedIssues = [\<lparr> issue = MOCK_POLITICAL_ISSUES ! 0, confidence = 0.8,
                            matchedTerms = [''cut taxes''] \<rparr>] \<rparr>]"
  by (simp only: analyzePriorities_mapped valid_priorities_eval)
     (simp add: mapValidPriority_eq not_climate_eval findIssuesByKeywords_cut_taxes)

subsection \<open>Mapped and flagged priorities\<close>

lemma firstExtremePattern_spec:
  "firstExtremePattern EXTREME_PRIORITY_PATTERNS p = firstMatchingPattern p"
  by (simp add: firstExtremePattern_find firstMatchingPattern_def)

text \<open>
  Claim C5. The mapped priorities of \<open>analyzePriorities\<close> are, in order, the input
  priorities that are not blank after trimming and match no pattern; the flagged priorities
  are, in order, those that are not blank and match a pattern, each with the flag type of
  the first pattern of the list that matches it. So every priority that is not blank is in
  exactly one of the two lists, a blank one in neither, and a priority that matches a
  pattern is never mapped.
\<close>

theorem analyzePriorities_partition:
  "map userPriority (mappedPriorities (analyzePriorities ps))
     = filter (\<lambda>p. trim p \<noteq> [] \<and> firstMatchingPattern p = None) ps
   \<and> map (\<lambda>f. (flaggedUserPriority f, Some (flagType f))) (flaggedPriorities (analyzePriorities ps))
     = map (\<lambda>p. (p, map_option patternFlagType (firstMatchingPattern p)))
         (filter (\<lambda>p. trim p \<noteq> [] \<and> firstMatchingPattern p \<noteq> None) ps)
   \<and> (\<forall>p\<in>set ps.
         (p \<in> userPriority ` set (mappedPriorities (analyzePriorities ps))
            \<longleftrightarrow> trim p \<noteq> [] \<and> firstMatchingPattern p = None)
         \<and> (p \<in> flaggedUserPriority ` set (flaggedPriorities (analyzePriorities ps))
            \<longleftrightarrow> trim p \<noteq> [] \<and> firstMatchingPattern p \<noteq> None))"
proof -
  have m: "map userPriority (mappedPriorities (analyzePriorities ps))
     = filter (\<lambda>p. trim p \<noteq> [] \<and> firstMatchingPattern p = None) ps"
    by (simp add: analyzePriorities_mapped firstExtremePattern_spec comp_def)
  have f: "map flaggedUserPriority (flaggedPriorities (analyzePriorities ps))
     = filter (\<lambda>p. trim p \<noteq> [] \<and> firstMatchingPattern p \<noteq> None) ps"
    by (simp add: analyzePriorities_flagged firstExtremePattern_spec comp_def)
  have t: "map (\<lambda>f. (flaggedUserPriority f, Some (flagType f))) (flaggedPriorities (analyzePriorities ps))
     = map (\<lambda>p. (p, map_option patternFlagType (firstMatchingPattern p)))
         (filter (\<lambda>p. trim p \<noteq> [] \<and> firstMatchingPattern p \<noteq> None) ps)"
    by (auto simp: analyzePriorities_flagged firstExtremePattern_spec comp_def)
  have "userPriority ` set (mappedPriorities (analyzePriorities ps))
      = {p \<in> set ps. trim p \<noteq> [] \<and> firstMatchingPattern p = None}"
    using m by (metis set_filter set_map)
  moreover have "flaggedUserPriority ` set (flaggedPriorities (analyzePriorities ps))
      = {p \<in> set ps. trim p \<noteq> [] \<and> firstMatchingPattern p \<noteq> None}"
    using f by (metis set_filter set_map)
  ultimately show ?thesis using m t by simp
qed

theorem analyzePriorities_partition_witness:
  "map userPriority (mappedPriorities (analyzePriorities
       [''Return to the gold'' @ [CHR 0xA0] @ ''standard and abolish taxes'',
        '' '' @ [CHR 0xA0] @ '' '', ''Lower taxes'']))
     = [''Lower taxes'']
   \<and> map (\<lambda>f. (flaggedUserPriority f, Some (flagType f)))
       (flaggedPriorities (analyzePriorities
          [''Return to the gold'' @ [CHR 0xA0] @ ''standard and abolish taxes'',
           '' '' @ [CHR 0xA0] @ '' '', ''Lower taxes'']))
     = [(''Return to the gold'' @ [CHR 0xA0] @ ''standard and abolish taxes'', Some OutOfScope)]"
  using analyzePriorities_partition
    [of "[''Return to the gold'' @ [CHR 0xA0] @ ''standard and abolish taxes'',
          '' '' @ [CHR 0xA0] @ '' '', ''Lower taxes'']"]
  by (simp only: partition_eval)

subsection \<open>Confidence\<close>

text \<open>
  Claim C4 names a confidence of 0.5 for a priority that matches no issue. For the priority
  \<open>xyz\<close> no special case of \<open>findIssuesByKeywords\<close> applies and its keyword matching finds
  nothing; the helper returns the first issue of the taxonomy by its own fallback, and
  \<open>analyzePriorities\<close> gives that issue the confidence 0.8: its branch with 0.5 needs an
  empty list from the helper.
\<close>

theorem analyzePriorities_fallback_confidence:
  "specialCaseIssues (toLowerCase ''xyz'') = None
   \<and> standardMatches [''xyz''] = []
   \<and> map (map (issueId \<circ> issue) \<circ> mappedIssues) (mappedPriorities (analyzePriorities [''xyz'']))
     = [[''taxes'']]
   \<and> map (map confidence \<circ> mappedIssues) (mappedPriorities (analyzePriorities [''xyz'']))
     = [[0.8]]"
  by (simp only: analyzePriorities_mapped valid_priorities_eval)
     (simp add: mapValidPriority_eq not_climate_eval findIssuesByKeywords_xyz
        standardMatches_xyz specialCaseIssues_xyz ids_eval)

text \<open>The confidence 0.5 of the fallback branch of \<open>analyzePriorities\<close> is never assigned.\<close>

lemma analyzePriorities_never_half:
  "mp \<in> set (mappedPriorities (analyzePriorities ps)) \<Longrightarrow> mi \<in> set (mappedIssues mp) \<Longrightarrow>
   confidence mi = 0.9 \<or> confidence mi = 0.8"
  by (auto simp: analyzePriorities_mapped mapValidPriority_eq split: if_splits)

text \<open>
  Claim C7, as the code has it. The confidence of a mapped issue is a constant that depends
  neither on the terms of the issue nor on its weight. A mapped priority that contains
  \<open>climate\<close> has the single issue \<open>climate_change\<close> with confidence 0.9. Any other mapped
  priority for which \<open>findIssuesByKeywords\<close> finds issues, by a special case or by its
  keyword matching, has exactly these issues, each with confidence 0.8. Every confidence is
  above 0, and the confidences of a mapped priority are in descending order.
\<close>

theorem analyzePriorities_fixed_confidence:
  "\<forall>mp\<in>set (mappedPriorities (analyzePriorities ps)).
      (includesStr (toLowerCase (userPriority mp)) ''climate''
         \<longrightarrow> map (\<lambda>mi. (issueId (issue mi), confidence mi)) (mappedIssues mp)
               = [(''climate_change'', 0.9)])
      \<and> (\<not> includesStr (toLowerCase (userPriority mp)) ''climate''
           \<and> (specialCaseIssues (toLowerCase (userPriority mp)) \<noteq> None
               \<or> standardMatches [userPriority mp] \<noteq> [])
         \<longrightarrow> mappedIssues mp \<noteq> []
             \<and> map issue (mappedIssues mp)
                 = (case specialCaseIssues (toLowerCase (userPriority mp)) of
                      Some issues \<Rightarrow> issues
                    | None \<Rightarrow> standardMatches [userPriority mp])
             \<and> (\<forall>mi\<in>set (mappedIssues mp). confidence mi = 0.8))
      \<and> (\<forall>mi\<in>set (mappedIssues mp). 0 < confidence mi)
      \<and> sorted (rev (map confidence (mappedIssues mp)))"
proof
  fix mp
  assume "mp \<in> set (mappedPriorities (analyzePriorities ps))"
  then obtain p where mp: "mp = mapValidPriority p"
    by (auto simp: analyzePriorities_mapped)
  show "(includesStr (toLowerCase (userPriority mp)) ''climate''
         \<longrightarrow> map (\<lambda>mi. (issueId (issue mi), confidence mi)) (mappedIssues mp)
               = [(''climate_change'', 0.9)])
      \<and> (\<not> includesStr (toLowerCase (userPriority mp)) ''climate''
           \<and> (specialCaseIssues (toLowerCase (userPriority mp)) \<noteq> None
               \<or> standardMatches [userPriority mp] \<noteq> [])
         \<longrightarrow> mappedIssues mp \<noteq> []
             \<and> map issue (mappedIssues mp)
                 = (case specialCaseIssues (toLowerCase (userPriority mp)) of
                      Some issues \<Rightarrow> issues
                    | None \<Rightarrow> standardMatches [userPriority mp])
             \<and> (\<forall>mi\<in>set (mappedIssues mp). confidence mi = 0.8))
      \<and> (\<forall>mi\<in>set (mappedIssues mp). 0 < confidence mi)
      \<and> sorted (rev (map confidence (mappedIssues mp)))"
  proof (cases "includesStr (toLowerCase p) ''climate''")
    case True
    have "issueId (MOCK_POLITICAL_ISSUES ! 5) = ''climate_change''"
      by (simp add: MOCK_POLITICAL_ISSUES_def)
    with True show ?thesis by (simp add: mp mapValidPriority_eq)
  next
    case False
    have "map confidence (mappedIssues mp)
        = replicate (length (findIssuesByKeywords [p])) 0.8"
      using False by (simp add: mp mapValidPriority_eq comp_def map_replicate_const)
    then have s: "sorted (rev (map confidence (mappedIssues mp)))"
      by (simp add: sorted_replicate)
    have i: "map issue (mappedIssues mp) = findIssuesByKeywords [p]"
      using False by (simp add: mp mapValidPriority_eq comp_def)
    have f: "findIssuesByKeywords [p]
        = (case specialCaseIssues (toLowerCase p) of
             Some issues \<Rightarrow> issues
           | None \<Rightarrow> standardMatches [p])"
      if "specialCaseIssues (toLowerCase p) \<noteq> None \<or> standardMatches [p] \<noteq> []"
      using that findIssuesByKeywords_matched [of "[p]"]
      by (cases "specialCaseIssues (toLowerCase p)") (simp_all add: findIssuesByKeywords_def)
    have up: "userPriority mp = p" by (simp add: mp)
    have c: "\<forall>mi\<in>set (mappedIssues mp). confidence mi = 0.8"
      using False by (auto simp: mp mapValidPriority_eq)
    have ne: "mappedIssues mp \<noteq> []"
      using False by (simp add: mp mapValidPriority_eq findIssuesByKeywords_nonempty)
    from False s i f c ne show ?thesis
      unfolding up by auto
  qed
qed

theorem analyzePriorities_fixed_confidence_witness:
  "map userPriority (mappedPriorities (analyzePriorities [''cut taxes''])) = [''cut taxes'']
   \<and> map (map confidence \<circ> mappedIssues) (mappedPriorities (analyzePriorities [''cut taxes'']))
     = [[0.8]]"
proof -
  let ?mp = "\<lparr> userPriority = ''cut taxes'',
          mappedIssues = [\<lparr> issue = MOCK_POLITICAL_ISSUES ! 0, confidence = 0.8,
                            matchedTerms = [''cut taxes''] \<rparr>] \<rparr>"
  have "?mp \<in> set (mappedPriorities (analyzePriorities [''cut taxes'']))"
    by (simp add: mapped_cut_taxes)
  with analyzePriorities_fixed_confidence [of "[''cut taxes'']"]
  have "\<not> includesStr (toLowerCase (userPriority ?mp)) ''climate''
           \<and> (specialCaseIssues (toLowerCase (userPriority ?mp)) \<noteq> None
               \<or> standardMatches [userPriority ?mp] \<noteq> [])
         \<longrightarrow> (\<forall>mi\<in>set (mappedIssues ?mp). confidence mi = 0.8)"
    by blast
  then have "map confidence (mappedIssues ?mp) = [0.8]"
    using not_climate_eval standardMatches_cut_taxes by simp
  then show ?thesis by (simp add: mapped_cut_taxes)
qed

text \<open>
  The priority \<open>cut taxes\<close>: the specified confidence for the issue \<open>taxes\<close> is 5/9 (the
  synonym \<open>taxes\<close> of length 5 in a priority of length 9, weight 1), which is also what
  \<open>mapSinglePriority\<close> computes on the mock taxonomy; \<open>analyzePriorities\<close> returns 0.8.
\<close>

theorem analyzePriorities_confidence_counterexample:
  "map (map (issueId \<circ> issue) \<circ> mappedIssues) (mappedPriorities (analyzePriorities [''cut taxes'']))
     = [[''taxes'']]
   \<and> map (map confidence \<circ> mappedIssues) (mappedPriorities (analyzePriorities [''cut taxes'']))
     = [[0.8]]
   \<and> specifiedConfidence ''cut taxes'' (MOCK_POLITICAL_ISSUES ! 0) = 5 / 9
   \<and> map confidence (mappedIssues (mapSinglePriority MOCK_POLITICAL_ISSUES ''cut taxes''))
     = [5 / 9]"
  by (simp add: mapped_cut_taxes specified_cut_taxes mapSinglePriority_cut_taxes ids_eval)

subsection \<open>Conflicts\<close>




end
